theory Spec2Isabelle
  imports Complex_Main "HOL-Library.Multiset" "HOL-Library.AList"
    "HOL-Library.Char_ord" "HOL-Library.List_Lexorder"
begin

section \<open>Numbers and optional values\<close>

text \<open>
  A JavaScript \<open>number\<close> is a double, and it is modelled as the \<open>real\<close> that it
  denotes; \<open>NaN\<close> and the infinities are not numbers of the model. An optional
  value (\<open>T | undefined\<close>) is a \<open>T option\<close>, with \<open>None\<close> for \<open>undefined\<close>.
  \<open>a ?? b\<close> is \<open>orElse a b\<close>. \<open>Math.round\<close>, \<open>Math.floor\<close>, \<open>Math.max\<close>,
  \<open>Math.min\<close> and the comparisons are exact on doubles.
\<close>

definition orElse :: "'a option \<Rightarrow> 'a option \<Rightarrow> 'a option" where
  "orElse a b = (case a of Some v \<Rightarrow> Some v | None \<Rightarrow> b)"

definition Math_round :: "real \<Rightarrow> real" where
  \<comment> \<open>\<open>Math.round\<close>: the nearest integer, a tie going up.\<close>
  "Math_round x = of_int \<lfloor>x + 1 / 2\<rfloor>"

definition Math_floor :: "real \<Rightarrow> real" where
  "Math_floor x = of_int \<lfloor>x\<rfloor>"

section \<open>The JavaScript built-ins and the arithmetic of doubles\<close>

text \<open>
  The built-ins of the language and of the FIT writer that the program calls and
  whose results are text or depend on a locale: they are parameters of the model.
  \<open>stringToNumber s\<close> is \<open>Number(s)\<close>, \<open>None\<close> when the result is not finite;
  \<open>parseDate s\<close> is \<open>new Date(s).getTime()\<close>, \<open>None\<close> when it is \<open>NaN\<close>;
  a \<open>Date\<close> is its time value in milliseconds, and formatting one is taken as
  total (time values outside the range of \<open>Date\<close> are not modelled).

  \<open>rnd x\<close> is the double nearest to the real \<open>x\<close>: the result of \<open>+\<close>, \<open>-\<close>,
  \<open>*\<close> or \<open>/\<close> on two doubles is \<open>rnd\<close> of the exact result (an overflow to
  \<open>Infinity\<close> is not modelled). The rounding is a parameter as well: a property
  proved for every \<open>rnd\<close> holds for the rounding of binary64, and
  \<open>rnd = (\<lambda>x. x)\<close> is exact arithmetic.
\<close>

record js_env =
  stringToNumber :: "string \<Rightarrow> real option"
  numberToString :: "real \<Rightarrow> string"
  parseDate :: "string \<Rightarrow> real option"
  toISOString :: "real \<Rightarrow> string"
  toLocaleString :: "real \<Rightarrow> string"
  toLowerCase :: "string \<Rightarrow> string"
  fitTime :: "real \<Rightarrow> real"
  rnd :: "real \<Rightarrow> real"

text \<open>The wall clock: \<open>clk k\<close> is what the \<open>k\<close>-th place of a function that reads
  the clock (\<open>new Date()\<close>, \<open>Date.now()\<close>) gets.\<close>

type_synonym clock = "nat \<Rightarrow> real"

definition js_add :: "js_env \<Rightarrow> real \<Rightarrow> real \<Rightarrow> real" where
  \<comment> \<open>\<open>x + y\<close>\<close>
  "js_add env x y = rnd env (x + y)"

definition js_sub :: "js_env \<Rightarrow> real \<Rightarrow> real \<Rightarrow> real" where
  \<comment> \<open>\<open>x - y\<close>\<close>
  "js_sub env x y = rnd env (x - y)"

definition js_mul :: "js_env \<Rightarrow> real \<Rightarrow> real \<Rightarrow> real" where
  \<comment> \<open>\<open>x * y\<close>\<close>
  "js_mul env x y = rnd env (x * y)"

definition js_div :: "js_env \<Rightarrow> real \<Rightarrow> real \<Rightarrow> real" where
  \<comment> \<open>\<open>x / y\<close>, for \<open>y\<close> other than zero\<close>
  "js_div env x y = rnd env (x / y)"

text \<open>
  The sums and products of whole numbers that the program computes (an offset in
  seconds times 1000, the start in milliseconds plus that product, the loop
  counter times the step) are exact in doubles below \<open>2 ^ 53\<close>, which no time
  value of a \<open>Date\<close> reaches: they are written with the operations of the reals.
  So is the quotient \<open>totalSeconds / step\<close>, of which only the floor is used: the
  double nearest to the fifth of a whole number below \<open>2 ^ 51\<close> has the floor of
  that fifth.
\<close>

text \<open>
  \<open>x.toFixed(1)\<close>: the decimal with one digit after the point that is nearest to
  \<open>x\<close>, the larger one on a tie, and the text of the number itself from
  \<open>10 ^ 21\<close> on.
\<close>

definition digitChar :: "nat \<Rightarrow> char" where
  "digitChar d = ''0123456789'' ! d"

fun digitsOf :: "nat \<Rightarrow> string" where
  \<comment> \<open>the decimal representation of a natural number\<close>
  "digitsOf n = (if n < 10 then [digitChar n] else digitsOf (n div 10) @ [digitChar (n mod 10)])"

declare digitsOf.simps [simp del]

definition toFixed1 :: "js_env \<Rightarrow> real \<Rightarrow> string" where
  "toFixed1 env x =
     (let s = (if x < 0 then ''-'' else []);
          ax = \<bar>x\<bar>
      in if ax \<ge> 10 ^ 21 then s @ numberToString env ax
         else (let n = nat \<lfloor>ax * 10 + 1 / 2\<rfloor>
               in s @ digitsOf (n div 10) @ ''.'' @ digitsOf (n mod 10)))"

section \<open>The metrics map and the derived scalars\<close>

text \<open>
  \<open>Record<string, number>\<close>: the entries of the object in property order; a
  property is read with \<open>mget\<close>.
\<close>

type_synonym metrics = "(string \<times> real) list"

definition mget :: "metrics \<Rightarrow> string \<Rightarrow> real option" where
  "mget m k = map_of m k"

definition pickDistanceM :: "js_env \<Rightarrow> metrics \<Rightarrow> real option" where
  "pickDistanceM env m =
     orElse (mget m ''HDistance'')
       (orElse (mget m ''Distance'')
          (orElse (mget m ''DistanceMeters'')
             (if mget m ''Km'' \<noteq> None then Some (js_mul env (the (mget m ''Km'')) 1000) else None)))"

definition pickVerticalM :: "metrics \<Rightarrow> real option" where
  "pickVerticalM m = orElse (mget m ''Elevation'') (mget m ''Floors'')"

definition pickCadenceSpm :: "metrics \<Rightarrow> real option" where
  "pickCadenceSpm m = orElse (mget m ''AvgSpm'') (mget m ''Cadence'')"

text \<open>
  The fallback chain in the words of the specification: the keys are tried in
  the order given, each with its conversion, and the first one present wins.
\<close>

fun firstPresent :: "metrics \<Rightarrow> (string \<times> (real \<Rightarrow> real)) list \<Rightarrow> real option" where
  "firstPresent m [] = None"
| "firstPresent m ((k, conv) # ks) =
     (case mget m k of Some v \<Rightarrow> Some (conv v) | None \<Rightarrow> firstPresent m ks)"

section \<open>Parsed JSON\<close>

text \<open>
  A value returned by \<open>JSON.parse\<close> (the type \<open>unknown\<close> of the source): an
  object is the list of its own properties, read with \<open>map_of\<close>. A number that
  overflows parses to \<open>Infinity\<close>, which is \<open>JInfinity\<close> (with its sign).
  An absent property (\<open>undefined\<close>) is \<open>None\<close> of \<open>json option\<close>.
\<close>

datatype json =
    JNull
  | JBool bool
  | JNum real
  | JInfinity bool
  | JStr string
  | JArr "json list"
  | JObj "(string \<times> json) list"

datatype js_error = TypeError

fun truthy :: "json \<Rightarrow> bool" where
  "truthy JNull = False"
| "truthy (JBool b) = b"
| "truthy (JNum r) = (r \<noteq> 0)"
| "truthy (JInfinity s) = True"
| "truthy (JStr s) = (s \<noteq> [])"
| "truthy (JArr xs) = True"
| "truthy (JObj kv) = True"

definition asRecord :: "json option \<Rightarrow> (string \<times> json) list option" where
  "asRecord v = (case v of Some (JObj kv) \<Rightarrow> Some kv | _ \<Rightarrow> None)"

definition getProp :: "(string \<times> json) list option \<Rightarrow> string \<Rightarrow> json option" where
  \<comment> \<open>\<open>rec?.key\<close>\<close>
  "getProp r k = (case r of None \<Rightarrow> None | Some kv \<Rightarrow> map_of kv k)"

definition nullish :: "json option \<Rightarrow> bool" where
  "nullish v = (v = None \<or> v = Some JNull)"

definition jcoalesce :: "json option \<Rightarrow> json option \<Rightarrow> json option" where
  \<comment> \<open>\<open>a ?? b\<close> on values that may be \<open>null\<close>\<close>
  "jcoalesce a b = (if nullish a then b else a)"

definition safeNumber :: "js_env \<Rightarrow> json option \<Rightarrow> real option" where
  "safeNumber env v =
     (case v of
        Some (JNum n) \<Rightarrow> Some n
      | Some (JStr s) \<Rightarrow> stringToNumber env s
      | _ \<Rightarrow> None)"

text \<open>
  \<open>String(v)\<close> and \<open>${v}\<close>: conversion to a primitive. An array is joined with
  commas, \<open>null\<close> elements giving the empty string. An object uses the inherited
  \<open>toString\<close>, unless it has an own property of that name: a parsed value is never
  callable, the inherited \<open>valueOf\<close> returns the object itself, and the
  conversion throws a \<open>TypeError\<close>.
\<close>

fun joinWith :: "string \<Rightarrow> string list \<Rightarrow> string" where
  "joinWith sep [] = []"
| "joinWith sep [x] = x"
| "joinWith sep (x # y # ys) = x @ sep @ joinWith sep (y # ys)"

fun stringable :: "json \<Rightarrow> bool" where
  "stringable (JObj kv) = (map_of kv ''toString'' = None)"
| "stringable (JArr xs) = list_all stringable xs"
| "stringable v = True"

fun js_toString :: "js_env \<Rightarrow> json \<Rightarrow> string" where
  "js_toString env JNull = ''null''"
| "js_toString env (JBool b) = (if b then ''true'' else ''false'')"
| "js_toString env (JNum r) = numberToString env r"
| "js_toString env (JInfinity s) = (if s then ''Infinity'' else ''-Infinity'')"
| "js_toString env (JStr s) = s"
| "js_toString env (JArr xs) =
     joinWith '','' (map (\<lambda>x. if x = JNull then [] else js_toString env x) xs)"
| "js_toString env (JObj kv) = ''[object Object]''"

definition js_String :: "js_env \<Rightarrow> json \<Rightarrow> js_error + string" where
  "js_String env v = (if stringable v then Inr (js_toString env v) else Inl TypeError)"

definition bindE :: "'e + 'a \<Rightarrow> ('a \<Rightarrow> 'e + 'b) \<Rightarrow> 'e + 'b" where
  "bindE m f = (case m of Inl e \<Rightarrow> Inl e | Inr v \<Rightarrow> f v)"

fun sequenceE :: "('e + 'a) list \<Rightarrow> 'e + 'a list" where
  "sequenceE [] = Inr []"
| "sequenceE (m # ms) = bindE m (\<lambda>v. bindE (sequenceE ms) (\<lambda>vs. Inr (v # vs)))"

fun startsWith :: "string \<Rightarrow> string \<Rightarrow> bool" where
  "startsWith s [] = True"
| "startsWith [] (c # cs) = False"
| "startsWith (d # ds) (c # cs) = (d = c \<and> startsWith ds cs)"

fun str_includes :: "string \<Rightarrow> string \<Rightarrow> bool" where
  \<comment> \<open>\<open>s.includes(needle)\<close>\<close>
  "str_includes [] needle = (needle = [])"
| "str_includes (d # ds) needle = (startsWith (d # ds) needle \<or> str_includes ds needle)"

section \<open>The canonical workout\<close>

record WorkoutExportOpts =
  includeHrSeries :: bool
  includeCadenceSeries :: bool
  includePowerSeries :: bool
  includeMetricsInNotes :: bool
  includeCalories :: bool
  includeDistance :: bool
  includeVerticalAsAltitude :: bool

record SeriesPoint =
  tSec :: real
  hr :: "real option"
  watts :: "real option"
  cadence :: "real option"
  verticalM :: "real option"

datatype source = Indoor | Outdoor

text \<open>
  The workout object. Its \<open>metrics\<close> and \<open>series\<close> are objects of their own:
  the record is read with the values themselves in these two fields
  (\<open>Workout\<close>), or with their addresses in a store (\<open>WorkoutRef\<close>, below).
\<close>

record ('s, 'm) WorkoutObj =
  uid :: string
  source :: source
  w_id :: string
  startedAtISO :: "string option"
  startedAtDisplay :: string
  activityName :: string
  durationSec :: "real option"
  calories :: "real option"
  distanceM :: "real option"
  w_verticalM :: "real option"
  cadenceSpm :: "real option"
  exportOpts :: WorkoutExportOpts
  metrics :: 'm
  metricKeys :: "string list"
  series :: "'s option"
  raw :: json

type_synonym Workout = "(SeriesPoint list, metrics) WorkoutObj"

section \<open>The indoor normalizer\<close>

definition setMetric :: "metrics \<Rightarrow> string \<Rightarrow> real \<Rightarrow> metrics" where
  \<comment> \<open>\<open>out[name] = val\<close> on an object literal: a new key goes last, a key already
     there keeps its place, and assigning a number to \<open>__proto__\<close> does nothing.
     (A name that is an array index, such as \<open>"7"\<close>, would come before the
     others in the order of the properties; only the notes of the track encoder
     read that order.)\<close>
  "setMetric out name val = (if name = ''__proto__'' then out else AList.update name val out)"

definition prToMap :: "js_env \<Rightarrow> json \<Rightarrow> metrics" where
  "prToMap env rawv =
     (let rawRec = asRecord (Some rawv);
          performedData = asRecord (getProp rawRec ''performedData'');
          physicalActivityData = asRecord (getProp rawRec ''physicalActivityData'');
          pr = jcoalesce (getProp performedData ''pr'')
                 (jcoalesce (getProp physicalActivityData ''pr'')
                    (jcoalesce (getProp performedData ''PR'')
                       (getProp physicalActivityData ''PR'')))
      in case pr of
           Some (JArr items) \<Rightarrow>
             foldl (\<lambda>out item.
                      let itemRec = asRecord (Some item);
                          name = getProp itemRec ''n'';
                          val = safeNumber env (getProp itemRec ''v'')
                      in case (name, val) of
                           (Some (JStr n), Some v) \<Rightarrow> setMetric out n v
                         | _ \<Rightarrow> out)
                   [] items
         | _ \<Rightarrow> [])"

definition emdash :: string where
  "emdash = [CHR 0xE2, CHR 0x80, CHR 0x94]"

definition formatDateHuman :: "js_env \<Rightarrow> string \<Rightarrow> string" where
  "formatDateHuman env isoStr =
     (if isoStr = [] then emdash
      else case parseDate env isoStr of
             None \<Rightarrow> emdash
           | Some d \<Rightarrow> toLocaleString env d)"

definition indoorWorkout :: "js_env \<Rightarrow> json \<Rightarrow> nat \<Rightarrow> js_error + Workout" where
  \<comment> \<open>the callback of \<open>items.map\<close> in \<open>extractWorkoutsFromIndoorJSON\<close>\<close>
  "indoorWorkout env rawv idx =
     (let rawRec = asRecord (Some rawv);
          ms = prToMap env rawv;
          startedAt = getProp rawRec ''on'';
          durationSec = mget ms ''Duration'';
          calories = mget ms ''Calories'';
          distanceM = pickDistanceM env ms;
          verticalM = pickVerticalM ms;
          cadenceSpm = pickCadenceSpm ms;
          fallbackName = JStr (if verticalM \<noteq> None then ''Stair climber'' else ''Indoor workout'');
          activityName =
            (case getProp rawRec ''activityName'' of
               Some v \<Rightarrow> if truthy v then v else fallbackName
             | None \<Rightarrow> fallbackName);
          idx_s = numberToString env (of_nat idx)
      in bindE (if nullish (getProp rawRec ''id'')
                then bindE (js_String env (if nullish startedAt then JStr ''ind'' else the startedAt))
                       (\<lambda>s. Inr (s @ ''-'' @ idx_s))
                else js_String env (the (getProp rawRec ''id'')))
          (\<lambda>id. bindE (js_String env (if nullish startedAt then JStr ''unknown'' else the startedAt))
          (\<lambda>started_s. bindE (js_String env activityName)
          (\<lambda>name_s. Inr
            \<lparr> uid = ''indoor-'' @ started_s @ ''-'' @ id @ ''-'' @ idx_s,
              source = Indoor,
              w_id = id,
              startedAtISO = (case startedAt of Some (JStr s) \<Rightarrow> Some s | _ \<Rightarrow> None),
              startedAtDisplay =
                (case startedAt of Some (JStr s) \<Rightarrow> formatDateHuman env s | _ \<Rightarrow> emdash),
              activityName = name_s,
              durationSec = durationSec,
              calories = calories,
              distanceM = distanceM,
              w_verticalM = verticalM,
              cadenceSpm = cadenceSpm,
              exportOpts =
                \<lparr> includeHrSeries = (mget ms ''AvgHr'' \<noteq> None \<or> mget ms ''MaxHr'' \<noteq> None),
                  includeCadenceSeries =
                    (cadenceSpm \<noteq> None \<or> mget ms ''AvgSpm'' \<noteq> None \<or> mget ms ''Cadence'' \<noteq> None),
                  includePowerSeries = (mget ms ''AvgPower'' \<noteq> None),
                  includeMetricsInNotes = False,
                  includeCalories = (calories \<noteq> None),
                  includeDistance = (distanceM \<noteq> None),
                  includeVerticalAsAltitude = (verticalM \<noteq> None) \<rparr>,
              metrics = ms,
              metricKeys = sort (map fst ms),
              series = None,
              raw = rawv \<rparr>))))"

definition extractWorkoutsFromIndoorJSON :: "js_env \<Rightarrow> json \<Rightarrow> js_error + Workout list" where
  "extractWorkoutsFromIndoorJSON env obj =
     (let items = (case obj of JArr xs \<Rightarrow> xs | _ \<Rightarrow> [])
      in sequenceE (map (\<lambda>(rawv, idx). indoorWorkout env rawv idx) (zip items [0..<length items])))"

section \<open>What both encoders compute first\<close>

definition rawStartISO :: "json \<Rightarrow> string option" where
  "rawStartISO rawv =
     (let rawRec = asRecord (Some rawv)
      in case getProp rawRec ''on'' of
           Some (JStr s) \<Rightarrow> Some s
         | _ \<Rightarrow> (case getProp rawRec ''performedDate'' of
                   Some (JStr s) \<Rightarrow> Some s
                 | _ \<Rightarrow> None))"

definition truthyString :: "string option \<Rightarrow> bool" where
  "truthyString s = (case s of Some t \<Rightarrow> t \<noteq> [] | None \<Rightarrow> False)"

definition startISO :: "js_env \<Rightarrow> clock \<Rightarrow> ('s, 'm) WorkoutObj \<Rightarrow> string" where
  \<comment> \<open>\<open>(typeof w.startedAtISO === "string" && w.startedAtISO) || rawStartISO ||
      new Date().toISOString()\<close>\<close>
  "startISO env clk w =
     (if truthyString (startedAtISO w) then the (startedAtISO w)
      else if truthyString (rawStartISO (raw w)) then the (rawStartISO (raw w))
      else toISOString env (clk 0))"

definition startMs :: "js_env \<Rightarrow> clock \<Rightarrow> ('s, 'm) WorkoutObj \<Rightarrow> real" where
  \<comment> \<open>\<open>validStartMs\<close> of the track encoder, \<open>startMs\<close> of the activity encoder\<close>
  "startMs env clk w =
     (case parseDate env (startISO env clk w) of None \<Rightarrow> clk 1 | Some t \<Rightarrow> t)"

definition totalSeconds :: "('s, 'm) WorkoutObj \<Rightarrow> real" where
  "totalSeconds w = max 0 (Math_round (case durationSec w of Some d \<Rightarrow> d | None \<Rightarrow> 0))"

definition totalDistanceM :: "('s, 'm) WorkoutObj \<Rightarrow> WorkoutExportOpts \<Rightarrow> real option" where
  "totalDistanceM w opts = (if includeDistance opts then distanceM w else None)"

definition totalVerticalM :: "('s, 'm) WorkoutObj \<Rightarrow> WorkoutExportOpts \<Rightarrow> real option" where
  "totalVerticalM w opts =
     (if includeVerticalAsAltitude opts \<and> w_verticalM w \<noteq> None then w_verticalM w else None)"

definition defaultWatts :: "Workout \<Rightarrow> WorkoutExportOpts \<Rightarrow> real option" where
  "defaultWatts w opts =
     (let avgPower = mget (metrics w) ''AvgPower''
      in if includePowerSeries opts \<and> avgPower \<noteq> None
         then Some (Math_round (the avgPower)) else None)"

definition defaultCadence :: "js_env \<Rightarrow> Workout \<Rightarrow> WorkoutExportOpts \<Rightarrow> real option" where
  \<comment> \<open>\<open>cadenceSpm\<close> of the track encoder, \<open>defaultCadence\<close> of the activity encoder\<close>
  "defaultCadence env w opts =
     (let spmFromField = pickCadenceSpm (metrics w);
          move = mget (metrics w) ''Move'';
          dur = the (orElse (mget (metrics w) ''Duration'') (orElse (durationSec w) (Some 0)))
      in if includeCadenceSeries opts
         then orElse spmFromField
                (if move \<noteq> None \<and> dur > 0 then Some (js_div env (the move) (js_div env dur 60)) else None)
         else None)"

definition hasSeries :: "Workout \<Rightarrow> bool" where
  "hasSeries w = (case series w of Some xs \<Rightarrow> length xs > 0 | None \<Rightarrow> False)"

definition seriesOf :: "Workout \<Rightarrow> SeriesPoint list" where
  \<comment> \<open>\<open>w.series ?? []\<close>\<close>
  "seriesOf w = (case series w of Some xs \<Rightarrow> xs | None \<Rightarrow> [])"

definition sortSeries :: "SeriesPoint list \<Rightarrow> SeriesPoint list" where
  \<comment> \<open>\<open>.sort((a, b) => a.tSec - b.tSec)\<close>, a stable sort, on the values of the points\<close>
  "sortSeries xs = sort_key tSec xs"

definition sortedSeries :: "Workout \<Rightarrow> SeriesPoint list" where
  \<comment> \<open>\<open>[...(w.series ?? [])].sort((a, b) => a.tSec - b.tSec)\<close>\<close>
  "sortedSeries w = sortSeries (seriesOf w)"

definition seriesTotalSec :: "('s, 'm) WorkoutObj \<Rightarrow> SeriesPoint list \<Rightarrow> real" where
  \<comment> \<open>\<open>Math.max(totalSeconds, sortedSeries[sortedSeries.length - 1]?.tSec ?? 0)\<close>\<close>
  "seriesTotalSec w sortedPts =
     max (totalSeconds w) (if sortedPts = [] then 0 else tSec (sortedPts ! (length sortedPts - 1)))"

definition syntheticCount :: "real \<Rightarrow> real" where
  \<comment> \<open>\<open>n\<close>, with \<open>step = 5\<close>\<close>
  "syntheticCount secs = (if secs > 0 then max 2 (Math_floor (secs / 5) + 1) else 2)"

definition syntheticIndices :: "real \<Rightarrow> nat list" where
  \<comment> \<open>the values of \<open>i\<close> in \<open>for (let i = 0; i < n; i++)\<close>\<close>
  "syntheticIndices secs = [0..<nat \<lceil>syntheticCount secs\<rceil>]"

definition syntheticHr :: "Workout \<Rightarrow> WorkoutExportOpts \<Rightarrow> real option" where
  "syntheticHr w opts =
     (let avgHr = mget (metrics w) ''AvgHr''; maxHr = mget (metrics w) ''MaxHr''
      in if includeHrSeries opts \<and> (avgHr \<noteq> None \<or> maxHr \<noteq> None)
         then Some (Math_round (the (orElse avgHr maxHr))) else None)"

section \<open>The track encoder\<close>

record Trackpoint =
  tp_t :: real
  tp_alt :: "real option"
  tp_dist :: real
  tp_hr :: "real option"
  tp_cadence :: "real option"
  tp_watts :: "real option"

definition tcxSeriesPoint ::
  "js_env \<Rightarrow> Workout \<Rightarrow> WorkoutExportOpts \<Rightarrow> real \<Rightarrow> SeriesPoint \<Rightarrow> Trackpoint" where
  "tcxSeriesPoint env w opts seriesTotal p =
     (let t = max 0 (Math_round (tSec p));
          hrv = (if includeHrSeries opts
                 then (case hr p of Some h \<Rightarrow> Some (Math_round h) | None \<Rightarrow> None)
                 else None);
          pointCadence =
            (if includeCadenceSeries opts
             then (case cadence p of
                     Some c \<Rightarrow> Some (Math_round c)
                   | None \<Rightarrow> map_option Math_round (defaultCadence env w opts))
             else None);
          pointWatts =
            (if includePowerSeries opts
             then (case watts p of Some x \<Rightarrow> Some (Math_round x) | None \<Rightarrow> defaultWatts w opts)
             else None);
          dist = (if totalDistanceM w opts \<noteq> None \<and> seriesTotal > 0
                  then js_mul env (the (totalDistanceM w opts)) (js_div env t seriesTotal)
                  else 0);
          alt = (if includeVerticalAsAltitude opts
                 then (case verticalM p of
                         Some v \<Rightarrow> Some v
                       | None \<Rightarrow>
                           if totalVerticalM w opts \<noteq> None \<and> seriesTotal > 0
                           then Some (js_mul env (the (totalVerticalM w opts)) (js_div env t seriesTotal))
                           else None)
                 else None)
      in \<lparr> tp_t = t, tp_alt = alt, tp_dist = dist, tp_hr = hrv,
           tp_cadence = pointCadence, tp_watts = pointWatts \<rparr>)"

definition tcxSyntheticPoint :: "js_env \<Rightarrow> Workout \<Rightarrow> WorkoutExportOpts \<Rightarrow> nat \<Rightarrow> Trackpoint" where
  "tcxSyntheticPoint env w opts i =
     (let t = min (totalSeconds w) (of_nat i * 5);
          dist = (if totalDistanceM w opts \<noteq> None \<and> totalSeconds w > 0
                  then js_mul env (the (totalDistanceM w opts)) (js_div env t (totalSeconds w))
                  else 0);
          alt = (if totalVerticalM w opts \<noteq> None \<and> totalSeconds w > 0
                 then Some (js_mul env (the (totalVerticalM w opts)) (js_div env t (totalSeconds w)))
                 else None)
      in \<lparr> tp_t = t, tp_alt = alt, tp_dist = dist, tp_hr = syntheticHr w opts,
           tp_cadence = map_option Math_round (defaultCadence env w opts),
           tp_watts = defaultWatts w opts \<rparr>)"

definition tcxTrackpoints :: "js_env \<Rightarrow> Workout \<Rightarrow> WorkoutExportOpts \<Rightarrow> Trackpoint list" where
  \<comment> \<open>the values that each pass of the two loops turns into a \<open><Trackpoint>\<close>\<close>
  "tcxTrackpoints env w opts =
     (if hasSeries w
      then map (tcxSeriesPoint env w opts (seriesTotalSec w (sortedSeries w))) (sortedSeries w)
      else map (tcxSyntheticPoint env w opts) (syntheticIndices (totalSeconds w)))"

definition nl :: string where
  "nl = [CHR 0x0A]"

definition sp :: "nat \<Rightarrow> string" where
  "sp n = replicate n (CHR '' '')"

definition renderTrackpoint :: "js_env \<Rightarrow> real \<Rightarrow> Trackpoint \<Rightarrow> string" where
  \<open>renderTrackpoint env validStartMs tp =
     nl @ sp 8 @ ''<Trackpoint>'' @ nl @
     sp 10 @ ''<Time>'' @ toISOString env (validStartMs + tp_t tp * 1000) @ ''</Time>'' @ nl @
     sp 10 @ (case tp_alt tp of
                Some a \<Rightarrow> ''<AltitudeMeters>'' @ toFixed1 env a @ ''</AltitudeMeters>''
              | None \<Rightarrow> []) @ nl @
     sp 10 @ ''<DistanceMeters>'' @ toFixed1 env (tp_dist tp) @ ''</DistanceMeters>'' @ nl @
     sp 10 @ (case tp_hr tp of
                Some h \<Rightarrow> ''<HeartRateBpm><Value>'' @ numberToString env h @ ''</Value></HeartRateBpm>''
              | None \<Rightarrow> []) @ nl @
     sp 10 @ (case tp_cadence tp of
                Some c \<Rightarrow> ''<Cadence>'' @ numberToString env c @ ''</Cadence>''
              | None \<Rightarrow> []) @ nl @
     sp 10 @ (case tp_watts tp of
                Some x \<Rightarrow>
                  ''<Extensions>'' @ nl @
                  sp 18 @ ''<tpx:TPX>'' @ nl @
                  sp 20 @ ''<tpx:Watts>'' @ numberToString env x @ ''</tpx:Watts>'' @ nl @
                  sp 18 @ ''</tpx:TPX>'' @ nl @
                  sp 16 @ ''</Extensions>''
              | None \<Rightarrow> []) @ nl @
     sp 8 @ ''</Trackpoint>''\<close>

definition tcxPoints :: "js_env \<Rightarrow> clock \<Rightarrow> Workout \<Rightarrow> WorkoutExportOpts \<Rightarrow> string list" where
  \<comment> \<open>the array \<open>points\<close> when the loops are over\<close>
  "tcxPoints env clk w opts = map (renderTrackpoint env (startMs env clk w)) (tcxTrackpoints env w opts)"

definition pickSport :: "js_env \<Rightarrow> string \<Rightarrow> string" where
  "pickSport env name =
     (let a = toLowerCase env name
      in if str_includes a ''run'' then ''Running''
         else if str_includes a ''cycle'' \<or> str_includes a ''bike'' \<or> str_includes a ''ride''
         then ''Biking''
         else ''Other'')"

definition tcxNotes :: "js_env \<Rightarrow> Workout \<Rightarrow> WorkoutExportOpts \<Rightarrow> string" where
  "tcxNotes env w opts =
     (if includeMetricsInNotes opts
      then ''Mywellness metrics: '' @
           joinWith '', '' (map (\<lambda>(k, v). k @ ''='' @ numberToString env v) (metrics w))
      else ''Generated from Mywellness export.'')"

definition tcxDocument ::
  "js_env \<Rightarrow> clock \<Rightarrow> Workout \<Rightarrow> WorkoutExportOpts \<Rightarrow> string list \<Rightarrow> string" where
  \<comment> \<open>the template literal that \<open>workoutToTCX\<close> returns, around the array \<open>points\<close>\<close>
  \<open>tcxDocument env clk w opts pts =
     (let start = parseDate env (startISO env clk w);
          startForTCX = (case start of
                           None \<Rightarrow> toISOString env (clk 2)
                         | Some t \<Rightarrow> toISOString env t);
          calories = (if includeCalories opts then calories w else None);
          sport = pickSport env (activityName w);
          notes = tcxNotes env w opts
      in ''<?xml version="1.0" encoding="UTF-8"?>'' @ nl @
         ''<TrainingCenterDatabase xmlns="http://www.garmin.com/xmlschemas/TrainingCenterDatabase/v2"'' @ nl @
         sp 2 @ ''xmlns:xsi="http://www.w3.org/2001/XMLSchema-instance"'' @ nl @
         sp 2 @ ''xmlns:tpx="http://www.garmin.com/xmlschemas/ActivityExtension/v2"'' @ nl @
         sp 2 @ ''xsi:schemaLocation="http://www.garmin.com/xmlschemas/TrainingCenterDatabase/v2 http://www.garmin.com/xmlschemas/TrainingCenterDatabasev2.xsd">'' @ nl @
         sp 2 @ ''<Activities>'' @ nl @
         sp 4 @ ''<Activity Sport="'' @ sport @ ''">'' @ nl @
         sp 6 @ ''<Id>'' @ startForTCX @ ''</Id>'' @ nl @
         sp 6 @ ''<Lap StartTime="'' @ startForTCX @ ''">'' @ nl @
         sp 8 @ ''<TotalTimeSeconds>'' @ numberToString env (totalSeconds w) @ ''</TotalTimeSeconds>'' @ nl @
         sp 8 @ ''<DistanceMeters>'' @
                (case totalDistanceM w opts of Some d \<Rightarrow> toFixed1 env d | None \<Rightarrow> ''0'') @
                ''</DistanceMeters>'' @ nl @
         sp 8 @ (case calories of
                   Some c \<Rightarrow> ''<Calories>'' @ numberToString env (max 0 (Math_round c)) @ ''</Calories>''
                 | None \<Rightarrow> []) @ nl @
         sp 8 @ ''<Intensity>Active</Intensity>'' @ nl @
         sp 8 @ ''<TriggerMethod>Manual</TriggerMethod>'' @ nl @
         sp 8 @ ''<Track>'' @ joinWith nl pts @ nl @
         sp 8 @ ''</Track>'' @ nl @
         sp 6 @ ''</Lap>'' @ nl @
         sp 6 @ ''<Notes>'' @ notes @ ''</Notes>'' @ nl @
         sp 4 @ ''</Activity>'' @ nl @
         sp 2 @ ''</Activities>'' @ nl @
         ''</TrainingCenterDatabase>'')\<close>

definition workoutToTCX :: "js_env \<Rightarrow> clock \<Rightarrow> Workout \<Rightarrow> WorkoutExportOpts \<Rightarrow> string" where
  "workoutToTCX env clk w opts = tcxDocument env clk w opts (tcxPoints env clk w opts)"

section \<open>Heart rate between anchors\<close>

record Anchor =
  a_tSec :: real
  a_hr :: real

fun hrAt_loop :: "js_env \<Rightarrow> Anchor list \<Rightarrow> real \<Rightarrow> real \<Rightarrow> real" where
  \<comment> \<open>the \<open>for\<close> loop over \<open>a = hrAnchors[i - 1]\<close>, \<open>b = hrAnchors[i]\<close>, and the
     \<open>return last.hr\<close> after it\<close>
  "hrAt_loop env (a # b # rest) lastHr t =
     (if t \<le> a_tSec b
      then (let span = js_sub env (a_tSec b) (a_tSec a)
            in if span \<le> 0 then a_hr b
               else (let ratio = js_div env (js_sub env t (a_tSec a)) span
                     in js_add env (a_hr a) (js_mul env (js_sub env (a_hr b) (a_hr a)) ratio)))
      else hrAt_loop env (b # rest) lastHr t)"
| "hrAt_loop env [a] lastHr t = lastHr"
| "hrAt_loop env [] lastHr t = lastHr"


definition hrAt_fit :: "js_env \<Rightarrow> WorkoutExportOpts \<Rightarrow> Anchor list \<Rightarrow> real \<Rightarrow> real option" where
  \<comment> \<open>\<open>hrAt\<close> of \<open>workoutToFIT\<close>\<close>
  "hrAt_fit env opts hrAnchors t =
     (if \<not> includeHrSeries opts \<or> length hrAnchors = 0 then None
      else if length hrAnchors = 1 then Some (a_hr (hrAnchors ! 0))
      else if t \<le> a_tSec (hrAnchors ! 0) then Some (a_hr (hrAnchors ! 0))
      else (let lst = hrAnchors ! (length hrAnchors - 1)
            in if t \<ge> a_tSec lst then Some (a_hr lst)
               else Some (hrAt_loop env hrAnchors (a_hr lst) t)))"

section \<open>The activity encoder\<close>

record FitRecord =
  r_tSec :: real
  r_hr :: "real option"
  r_cadence :: "real option"
  r_watts :: "real option"
  r_alt :: "real option"
  r_dist :: real

definition toAnchor :: "SeriesPoint \<Rightarrow> Anchor" where
  \<comment> \<open>what \<open>hrAt\<close> reads of a point that has a heart rate\<close>
  "toAnchor p = \<lparr> a_tSec = tSec p, a_hr = the (hr p) \<rparr>"

definition hrAnchors :: "SeriesPoint list \<Rightarrow> Anchor list" where
  \<comment> \<open>\<open>sortedSeries.filter((p) => p.hr != null).sort((a, b) => a.tSec - b.tSec)\<close>\<close>
  "hrAnchors sortedPts = map toAnchor (sort_key tSec (filter (\<lambda>p. hr p \<noteq> None) sortedPts))"

definition fitSeriesRecord ::
  "js_env \<Rightarrow> Workout \<Rightarrow> WorkoutExportOpts \<Rightarrow> Anchor list \<Rightarrow> real \<Rightarrow> SeriesPoint \<Rightarrow> FitRecord" where
  "fitSeriesRecord env w opts anchors seriesTotal p =
     (let t = max 0 (Math_round (tSec p));
          hrRaw = hrAt_fit env opts anchors t;
          hrv = (if includeHrSeries opts \<and> hrRaw \<noteq> None
                 then Some (Math_round (the hrRaw)) else None);
          cad = (if includeCadenceSeries opts
                 then (case cadence p of
                         Some c \<Rightarrow> Some (Math_round c)
                       | None \<Rightarrow>
                           if defaultCadence env w opts \<noteq> None
                           then Some (Math_round (the (defaultCadence env w opts)))
                           else None)
                 else None);
          wts = (if includePowerSeries opts
                 then (case watts p of Some x \<Rightarrow> Some (Math_round x) | None \<Rightarrow> defaultWatts w opts)
                 else None);
          dist = (if totalDistanceM w opts \<noteq> None \<and> seriesTotal > 0
                  then js_mul env (the (totalDistanceM w opts)) (js_div env t seriesTotal)
                  else 0);
          alt = (if includeVerticalAsAltitude opts
                 then (case verticalM p of
                         Some v \<Rightarrow> Some v
                       | None \<Rightarrow>
                           if totalVerticalM w opts \<noteq> None \<and> seriesTotal > 0
                           then Some (js_mul env (the (totalVerticalM w opts)) (js_div env t seriesTotal))
                           else None)
                 else None)
      in \<lparr> r_tSec = t, r_hr = hrv, r_cadence = cad, r_watts = wts, r_alt = alt, r_dist = dist \<rparr>)"

fun firstKnown :: "FitRecord list \<Rightarrow> real option" where
  \<comment> \<open>the first loop of the forward-fill pass, left at the first known value\<close>
  "firstKnown [] = None"
| "firstKnown (r # rs) = (case r_hr r of Some h \<Rightarrow> Some h | None \<Rightarrow> firstKnown rs)"

fun fillFrom :: "real \<Rightarrow> FitRecord list \<Rightarrow> FitRecord list" where
  \<comment> \<open>the second loop: \<open>if (r.hr == null) r.hr = prev; else prev = r.hr;\<close>\<close>
  "fillFrom prev [] = []"
| "fillFrom prev (r # rs) =
     (case r_hr r of
        None \<Rightarrow> r\<lparr>r_hr := Some prev\<rparr> # fillFrom prev rs
      | Some h \<Rightarrow> r # fillFrom h rs)"

definition fallbackHr :: "real option \<Rightarrow> real option \<Rightarrow> FitRecord list \<Rightarrow> real option" where
  "fallbackHr avgHr maxHr records =
     orElse (firstKnown records)
       (if avgHr \<noteq> None then Some (Math_round (the avgHr))
        else if maxHr \<noteq> None then Some (Math_round (the maxHr))
        else None)"

definition forwardFill ::
  "WorkoutExportOpts \<Rightarrow> real option \<Rightarrow> real option \<Rightarrow> FitRecord list \<Rightarrow> FitRecord list" where
  \<comment> \<open>the block \<open>if (opts.includeHrSeries && records.length > 0) { ... }\<close>\<close>
  "forwardFill opts avgHr maxHr records =
     (if includeHrSeries opts \<and> length records > 0
      then (case fallbackHr avgHr maxHr records of
              Some f \<Rightarrow> fillFrom f records
            | None \<Rightarrow> records)
      else records)"

definition fitSyntheticRecord :: "js_env \<Rightarrow> Workout \<Rightarrow> WorkoutExportOpts \<Rightarrow> nat \<Rightarrow> FitRecord" where
  "fitSyntheticRecord env w opts i =
     (let t = min (totalSeconds w) (of_nat i * 5);
          dist = (if totalDistanceM w opts \<noteq> None \<and> totalSeconds w > 0
                  then js_mul env (the (totalDistanceM w opts)) (js_div env t (totalSeconds w))
                  else 0);
          alt = (if totalVerticalM w opts \<noteq> None \<and> totalSeconds w > 0
                 then Some (js_mul env (the (totalVerticalM w opts)) (js_div env t (totalSeconds w)))
                 else None);
          cad = (if defaultCadence env w opts \<noteq> None
                 then Some (Math_round (the (defaultCadence env w opts))) else None)
      in \<lparr> r_tSec = t, r_hr = syntheticHr w opts, r_cadence = cad,
           r_watts = defaultWatts w opts, r_alt = alt, r_dist = dist \<rparr>)"

definition fitSeriesRecords ::
  "js_env \<Rightarrow> Workout \<Rightarrow> WorkoutExportOpts \<Rightarrow> SeriesPoint list \<Rightarrow> FitRecord list" where
  \<comment> \<open>the loop over \<open>sortedSeries\<close>, before the forward-fill pass\<close>
  "fitSeriesRecords env w opts sortedPts =
     map (fitSeriesRecord env w opts (hrAnchors sortedPts) (seriesTotalSec w sortedPts)) sortedPts"

definition fitRecords :: "js_env \<Rightarrow> Workout \<Rightarrow> WorkoutExportOpts \<Rightarrow> FitRecord list" where
  \<comment> \<open>the array \<open>records\<close> when it is written out\<close>
  "fitRecords env w opts =
     (if hasSeries w
      then forwardFill opts (mget (metrics w) ''AvgHr'') (mget (metrics w) ''MaxHr'')
             (fitSeriesRecords env w opts (sortedSeries w))
      else map (fitSyntheticRecord env w opts) (syntheticIndices (totalSeconds w)))"

section \<open>The messages of the activity encoder\<close>

text \<open>
  The FIT writer is outside the program: a message is what \<open>fit.writeMessage\<close> is
  called with (its kind, its fields in the order of the object literal, a field
  that is \<open>undefined\<close> being \<open>None\<close>, and the flag \<open>lastUse\<close>), and the writer
  is the sequence of the messages written so far.
\<close>

datatype fit_value = FNum real | FStr string

record fit_message =
  msg_kind :: string
  msg_fields :: "(string \<times> fit_value option) list"
  msg_lastUse :: bool

type_synonym fit_writer = "fit_message list"

definition writeMessage ::
  "string \<Rightarrow> (string \<times> fit_value option) list \<Rightarrow> bool \<Rightarrow> fit_writer \<Rightarrow> fit_writer" where
  "writeMessage kind flds lastUse fit =
     fit @ [\<lparr> msg_kind = kind, msg_fields = flds, msg_lastUse = lastUse \<rparr>]"

definition fnum :: "real \<Rightarrow> fit_value option" where
  "fnum x = Some (FNum x)"

definition fstr :: "string \<Rightarrow> fit_value option" where
  "fstr s = Some (FStr s)"

definition fopt :: "real option \<Rightarrow> fit_value option" where
  "fopt x = map_option FNum x"

definition pickFitSport :: "js_env \<Rightarrow> ('s, 'm) WorkoutObj \<Rightarrow> string \<times> string option" where
  "pickFitSport env w =
     (let a = toLowerCase env (activityName w)
      in if str_includes a ''run'' then (''running'', None)
         else if str_includes a ''cycle'' \<or> str_includes a ''bike'' \<or> str_includes a ''ride''
         then (''cycling'', None)
         else if str_includes a ''stair'' \<or> str_includes a ''climb'' \<or> str_includes a ''floor''
         then (''fitness_equipment'', Some ''stair_climbing'')
         else if source w = Indoor then (''fitness_equipment'', None)
         else (''generic'', None))"

definition deviceInfoFields :: "real \<Rightarrow> (string \<times> fit_value option) list" where
  "deviceInfoFields ts =
     [(''timestamp'', fnum ts), (''device_index'', fnum 0), (''manufacturer'', fstr ''garmin''),
      (''product'', fnum 0), (''serial_number'', fnum 0), (''software_version'', fnum 1)]"

definition writeHeader :: "real \<Rightarrow> bool \<Rightarrow> fit_writer \<Rightarrow> fit_writer" where
  \<comment> \<open>\<open>file_id\<close> and, with enhanced compatibility, \<open>file_creator\<close>, \<open>device_info\<close>
     and the start event\<close>
  "writeHeader startFit enhancedCompatibility fit =
     (let fit1 = writeMessage ''file_id''
                   [(''type'', fstr ''activity''), (''manufacturer'', fstr ''garmin''),
                    (''product'', fnum 0), (''serial_number'', fnum 0),
                    (''time_created'', fnum startFit),
                    (''product_name'', fstr ''mywellness2tcx'')] True fit
      in if enhancedCompatibility
         then (let fit2 = writeMessage ''file_creator''
                            [(''software_version'', fnum 100), (''hardware_version'', fnum 1)]
                            True fit1;
                   fit3 = writeMessage ''device_info'' (deviceInfoFields startFit) True fit2
               in writeMessage ''event''
                    [(''timestamp'', fnum startFit), (''event'', fstr ''timer''),
                     (''event_type'', fstr ''start''), (''event_group'', fnum 0)] False fit3)
         else fit1)"

definition recordFields :: "js_env \<Rightarrow> real \<Rightarrow> FitRecord \<Rightarrow> (string \<times> fit_value option) list" where
  "recordFields env sMs r =
     [(''timestamp'', fnum (fitTime env (sMs + r_tSec r * 1000))),
      (''distance'', fnum (r_dist r)),
      (''heart_rate'', fopt (r_hr r)),
      (''cadence'', fopt (r_cadence r)),
      (''power'', fopt (r_watts r)),
      (''altitude'', fopt (r_alt r))]"

definition writeRecords :: "js_env \<Rightarrow> real \<Rightarrow> FitRecord list \<Rightarrow> fit_writer \<Rightarrow> fit_writer" where
  \<comment> \<open>\<open>for (const r of records) fit.writeMessage("record", ...)\<close>\<close>
  "writeRecords env sMs records fit =
     foldl (\<lambda>f r. writeMessage ''record'' (recordFields env sMs r) False f) fit records"

definition writeSummary ::
  "js_env \<Rightarrow> real \<Rightarrow> Workout \<Rightarrow> WorkoutExportOpts \<Rightarrow> bool \<Rightarrow> FitRecord list
   \<Rightarrow> fit_writer \<Rightarrow> fit_writer" where
  \<comment> \<open>\<open>lap\<close>, \<open>session\<close>, \<open>activity\<close> and, with enhanced compatibility, the stop
     event and \<open>device_info\<close>; the literal \<open>1.08\<close> is the double nearest to 1.08\<close>
  "writeSummary env sMs w opts enhancedCompatibility records fit =
     (let startFit = fitTime env sMs;
          avgHr = mget (metrics w) ''AvgHr'';
          maxHr = mget (metrics w) ''MaxHr'';
          avgPower = mget (metrics w) ''AvgPower'';
          calories = (if includeCalories opts \<and> calories w \<noteq> None
                      then Some (max 0 (Math_round (the (calories w)))) else None);
          lastTSec = (if length records \<noteq> 0 then r_tSec (records ! (length records - 1))
                      else totalSeconds w);
          totalTime = max 1 lastTSec;
          avgSpeed = (if totalDistanceM w opts \<noteq> None \<and> totalTime > 0
                      then Some (js_div env (the (totalDistanceM w opts)) totalTime) else None);
          maxSpeed = (case avgSpeed of
                        Some v \<Rightarrow> Some (js_mul env v (rnd env (108 / 100)))
                      | None \<Rightarrow> None);
          totalAscent = (case totalVerticalM w opts of Some v \<Rightarrow> Some (max 0 v) | None \<Rightarrow> None);
          totalDescent = (case totalVerticalM w opts of Some v \<Rightarrow> Some 0 | None \<Rightarrow> None);
          totalWork = (case avgPower of
                         Some p \<Rightarrow> Some (max 0 (Math_round (js_mul env p totalTime)))
                       | None \<Rightarrow> None);
          sport = pickFitSport env w;
          endFit = fitTime env (sMs + max 1 lastTSec * 1000);
          fit1 = writeMessage ''lap''
                   [(''timestamp'', fnum endFit), (''start_time'', fnum startFit),
                    (''total_elapsed_time'', fnum totalTime),
                    (''total_timer_time'', fnum totalTime),
                    (''total_distance'',
                       fnum (case totalDistanceM w opts of Some d \<Rightarrow> d | None \<Rightarrow> 0)),
                    (''total_calories'', fopt calories),
                    (''total_ascent'', fopt totalAscent),
                    (''total_descent'', fopt totalDescent),
                    (''avg_speed'', fopt avgSpeed),
                    (''max_speed'', fopt maxSpeed),
                    (''avg_heart_rate'', fopt (map_option Math_round avgHr)),
                    (''max_heart_rate'', fopt (map_option Math_round maxHr)),
                    (''avg_power'', fopt (map_option Math_round avgPower)),
                    (''total_work'', fopt totalWork),
                    (''avg_cadence'', fopt (map_option Math_round (defaultCadence env w opts)))]
                   True fit;
          fit2 = writeMessage ''session''
                   [(''timestamp'', fnum endFit), (''start_time'', fnum startFit),
                    (''total_elapsed_time'', fnum totalTime),
                    (''total_timer_time'', fnum totalTime),
                    (''total_distance'',
                       fnum (case totalDistanceM w opts of Some d \<Rightarrow> d | None \<Rightarrow> 0)),
                    (''total_calories'', fopt calories),
                    (''total_ascent'', fopt totalAscent),
                    (''total_descent'', fopt totalDescent),
                    (''avg_speed'', fopt avgSpeed),
                    (''max_speed'', fopt maxSpeed),
                    (''total_work'', fopt totalWork),
                    (''sport'', fstr (fst sport)),
                    (''sub_sport'', map_option FStr (snd sport)),
                    (''num_laps'', fnum 1),
                    (''avg_heart_rate'', fopt (map_option Math_round avgHr)),
                    (''max_heart_rate'', fopt (map_option Math_round maxHr)),
                    (''avg_power'', fopt (map_option Math_round avgPower)),
                    (''avg_cadence'', fopt (map_option Math_round (defaultCadence env w opts)))]
                   True fit1;
          fit3 = writeMessage ''activity''
                   [(''timestamp'', fnum endFit), (''total_timer_time'', fnum totalTime),
                    (''num_sessions'', fnum 1), (''type'', fstr ''manual'')] True fit2
      in if enhancedCompatibility
         then (let fit4 = writeMessage ''event''
                            [(''timestamp'', fnum endFit), (''event'', fstr ''timer''),
                             (''event_type'', fstr ''stop_all''), (''event_group'', fnum 0)]
                            True fit3
               in writeMessage ''device_info'' (deviceInfoFields endFit) True fit4)
         else fit3)"

definition workoutToFIT ::
  "js_env \<Rightarrow> clock \<Rightarrow> Workout \<Rightarrow> WorkoutExportOpts \<Rightarrow> bool \<Rightarrow> fit_writer" where
  \<comment> \<open>the messages handed to the writer, in the order of the calls; \<open>fit.finish()\<close>
     turns them into bytes\<close>
  "workoutToFIT env clk w opts enhancedCompatibility =
     (let sMs = startMs env clk w;
          fit1 = writeHeader (fitTime env sMs) enhancedCompatibility [];
          records = fitRecords env w opts;
          fit2 = writeRecords env sMs records fit1
      in writeSummary env sMs w opts enhancedCompatibility records fit2)"

section \<open>The encoders on a store\<close>

text \<open>
  Arrays and objects are shared by reference, and \<open>sort\<close>, \<open>push\<close> and an assignment
  to a property change them in place. The store holds the arrays (each the list of
  the addresses of its elements), the series points, the metrics objects and the
  record objects that the activity encoder builds; an address is an index. A
  workout that lies in a store has the addresses of its series array and of its
  metrics object in the fields \<open>series\<close> and \<open>metrics\<close>.
\<close>

record store =
  arrays :: "nat list list"
  points :: "SeriesPoint list"
  metricsObjs :: "metrics list"
  recordObjs :: "FitRecord list"

type_synonym WorkoutRef = "(nat, nat) WorkoutObj"

definition pointsAt :: "store \<Rightarrow> nat \<Rightarrow> SeriesPoint list" where
  "pointsAt st a = map (\<lambda>p. points st ! p) (arrays st ! a)"

definition recordsAt :: "store \<Rightarrow> nat \<Rightarrow> FitRecord list" where
  "recordsAt st a = map (\<lambda>r. recordObjs st ! r) (arrays st ! a)"

definition deref :: "store \<Rightarrow> WorkoutRef \<Rightarrow> Workout" where
  \<comment> \<open>the workout as it reads in the store\<close>
  "deref st w =
     \<lparr> uid = uid w, source = source w, w_id = w_id w, startedAtISO = startedAtISO w,
       startedAtDisplay = startedAtDisplay w, activityName = activityName w,
       durationSec = durationSec w, calories = calories w, distanceM = distanceM w,
       w_verticalM = w_verticalM w, cadenceSpm = cadenceSpm w, exportOpts = exportOpts w,
       metrics = metricsObjs st ! metrics w, metricKeys = metricKeys w,
       series = map_option (pointsAt st) (series w), raw = raw w \<rparr>"

definition wellFormed :: "store \<Rightarrow> WorkoutRef \<Rightarrow> bool" where
  \<comment> \<open>the addresses of the workout are addresses of the store\<close>
  "wellFormed st w =
     (metrics w < length (metricsObjs st) \<and>
      (case series w of
         None \<Rightarrow> True
       | Some a \<Rightarrow> a < length (arrays st) \<and> list_all (\<lambda>p. p < length (points st)) (arrays st ! a)))"

definition newArray :: "nat list \<Rightarrow> store \<Rightarrow> nat \<times> store" where
  \<comment> \<open>an array literal, a spread copy \<open>[...xs]\<close> or the result of \<open>filter\<close>: a new array\<close>
  "newArray xs st = (length (arrays st), st\<lparr>arrays := arrays st @ [xs]\<rparr>)"

definition sortByTSec :: "nat \<Rightarrow> store \<Rightarrow> store" where
  \<comment> \<open>\<open>.sort((a, b) => a.tSec - b.tSec)\<close> on the array at \<open>a\<close>, in place\<close>
  "sortByTSec a st =
     st\<lparr>arrays := (arrays st)[a := sort_key (\<lambda>p. tSec (points st ! p)) (arrays st ! a)]\<rparr>"

definition pushRecord :: "nat \<Rightarrow> FitRecord \<Rightarrow> store \<Rightarrow> store" where
  \<comment> \<open>\<open>records.push({ ... })\<close>: a new object, and its address at the end of the array\<close>
  "pushRecord a r st =
     st\<lparr>recordObjs := recordObjs st @ [r],
        arrays := (arrays st)[a := arrays st ! a @ [length (recordObjs st)]]\<rparr>"

definition setHr :: "nat \<Rightarrow> real \<Rightarrow> store \<Rightarrow> store" where
  \<comment> \<open>\<open>r.hr = prev\<close>\<close>
  "setHr r v st = st\<lparr>recordObjs := (recordObjs st)[r := (recordObjs st ! r)\<lparr>r_hr := Some v\<rparr>]\<rparr>"

fun fillFrom_st :: "real \<Rightarrow> nat list \<Rightarrow> store \<Rightarrow> store" where
  "fillFrom_st prev [] st = st"
| "fillFrom_st prev (r # rs) st =
     (case r_hr (recordObjs st ! r) of
        None \<Rightarrow> fillFrom_st prev rs (setHr r prev st)
      | Some h \<Rightarrow> fillFrom_st h rs st)"

definition forwardFill_st ::
  "WorkoutExportOpts \<Rightarrow> real option \<Rightarrow> real option \<Rightarrow> nat \<Rightarrow> store \<Rightarrow> store" where
  "forwardFill_st opts avgHr maxHr records st =
     (if includeHrSeries opts \<and> length (arrays st ! records) > 0
      then (case fallbackHr avgHr maxHr (recordsAt st records) of
              Some f \<Rightarrow> fillFrom_st f (arrays st ! records) st
            | None \<Rightarrow> st)
      else st)"

definition sortedCopy :: "WorkoutRef \<Rightarrow> store \<Rightarrow> nat \<times> store" where
  \<comment> \<open>\<open>[...(w.series ?? [])].sort((a, b) => a.tSec - b.tSec)\<close>\<close>
  "sortedCopy w st =
     (let (a, st1) = newArray (case series w of Some s \<Rightarrow> arrays st ! s | None \<Rightarrow> []) st
      in (a, sortByTSec a st1))"

definition fitRecords_st ::
  "js_env \<Rightarrow> WorkoutRef \<Rightarrow> WorkoutExportOpts \<Rightarrow> store \<Rightarrow> nat \<times> store" where
  \<comment> \<open>from \<open>const records = []\<close> to the end of the forward-fill pass: the address of
     \<open>records\<close> and the store\<close>
  "fitRecords_st env w opts st0 =
     (let hasSer = hasSeries (deref st0 w);
          (records, st1) = newArray [] st0
      in if hasSer
         then (let (sortedA, st2) = sortedCopy w st1;
                   (anchorsA, st3) =
                     newArray (filter (\<lambda>p. hr (points st2 ! p) \<noteq> None) (arrays st2 ! sortedA)) st2;
                   st4 = sortByTSec anchorsA st3;
                   seriesTotal = seriesTotalSec w (pointsAt st4 sortedA);
                   st5 = foldl (\<lambda>st p.
                                  pushRecord records
                                    (fitSeriesRecord env (deref st w) opts
                                       (map toAnchor (pointsAt st anchorsA)) seriesTotal
                                       (points st ! p)) st)
                           st4 (arrays st4 ! sortedA)
               in (records,
                   forwardFill_st opts (mget (metrics (deref st5 w)) ''AvgHr'')
                     (mget (metrics (deref st5 w)) ''MaxHr'') records st5))
         else (records,
               foldl (\<lambda>st i. pushRecord records (fitSyntheticRecord env (deref st w) opts i) st)
                 st1 (syntheticIndices (totalSeconds w))))"

definition workoutToFIT_st ::
  "js_env \<Rightarrow> clock \<Rightarrow> WorkoutRef \<Rightarrow> WorkoutExportOpts \<Rightarrow> bool \<Rightarrow> store \<Rightarrow> fit_writer \<times> store" where
  "workoutToFIT_st env clk w opts enhancedCompatibility st0 =
     (let sMs = startMs env clk w;
          fit1 = writeHeader (fitTime env sMs) enhancedCompatibility [];
          (records, st1) = fitRecords_st env w opts st0;
          fit2 = writeRecords env sMs (recordsAt st1 records) fit1
      in (writeSummary env sMs (deref st1 w) opts enhancedCompatibility (recordsAt st1 records) fit2,
          st1))"

definition tcxTrackpoints_st ::
  "js_env \<Rightarrow> WorkoutRef \<Rightarrow> WorkoutExportOpts \<Rightarrow> store \<Rightarrow> Trackpoint list \<times> store" where
  "tcxTrackpoints_st env w opts st0 =
     (if hasSeries (deref st0 w)
      then (let (sortedA, st1) = sortedCopy w st0;
                seriesTotal = seriesTotalSec w (pointsAt st1 sortedA)
            in (map (\<lambda>p. tcxSeriesPoint env (deref st1 w) opts seriesTotal (points st1 ! p))
                  (arrays st1 ! sortedA),
                st1))
      else (map (tcxSyntheticPoint env (deref st0 w) opts) (syntheticIndices (totalSeconds w)), st0))"

definition workoutToTCX_st ::
  "js_env \<Rightarrow> clock \<Rightarrow> WorkoutRef \<Rightarrow> WorkoutExportOpts \<Rightarrow> store \<Rightarrow> string \<times> store" where
  "workoutToTCX_st env clk w opts st0 =
     (let (tps, st1) = tcxTrackpoints_st env w opts st0
      in (tcxDocument env clk (deref st1 w) opts (map (renderTrackpoint env (startMs env clk w)) tps),
          st1))"

definition unchanged :: "store \<Rightarrow> store \<Rightarrow> bool" where
  \<comment> \<open>every array and object of the first store is in the second one, as it was\<close>
  "unchanged st st' =
     (points st' = points st \<and> metricsObjs st' = metricsObjs st \<and>
      take (length (arrays st)) (arrays st') = arrays st \<and>
      take (length (recordObjs st)) (recordObjs st') = recordObjs st)"

section \<open>Definitions used to state the properties\<close>

definition mostRecent :: "real option list \<Rightarrow> real option" where
  \<comment> \<open>the last known value of a sequence of optional values\<close>
  "mostRecent hs =
     (let known = List.map_filter id hs in if known = [] then None else Some (last known))"

definition exOpts :: WorkoutExportOpts where
  \<comment> \<open>export options with only the heart-rate and distance options on\<close>
  "exOpts =
     \<lparr> includeHrSeries = True, includeCadenceSeries = False, includePowerSeries = False,
       includeMetricsInNotes = False, includeCalories = False, includeDistance = True,
       includeVerticalAsAltitude = False \<rparr>"

definition exRecord :: "real \<Rightarrow> real option \<Rightarrow> FitRecord" where
  \<comment> \<open>a record of the activity encoder with an offset and a heart rate only\<close>
  "exRecord t h =
     \<lparr> r_tSec = t, r_hr = h, r_cadence = None, r_watts = None, r_alt = None, r_dist = 0 \<rparr>"





definition exPoint :: "real \<Rightarrow> real option \<Rightarrow> SeriesPoint" where
  \<comment> \<open>a series point with an offset and a heart rate only\<close>
  "exPoint t h = \<lparr> tSec = t, hr = h, watts = None, cadence = None, verticalM = None \<rparr>"

definition exWorkout :: "real option \<Rightarrow> SeriesPoint list option \<Rightarrow> Workout" where
  \<comment> \<open>a workout of 1000 m with a start time, a duration and a series\<close>
  "exWorkout d s =
     \<lparr> uid = ''json-1'', source = Indoor, w_id = ''1'',
       startedAtISO = Some ''2024-01-01T10:00:00.000Z'',
       startedAtDisplay = ''2024-01-01'', activityName = ''Run'',
       durationSec = d, calories = None, distanceM = Some 1000, w_verticalM = None,
       cadenceSpm = None, exportOpts = exOpts, metrics = [(''AvgHr'', 130)],
       metricKeys = [''AvgHr''], series = s, raw = JNull \<rparr>"

definition exEnv :: js_env where
  \<comment> \<open>built-ins that read one date, print nothing of a number or a date, count FIT
     time in seconds from the end of 1989, and compute exactly\<close>
  "exEnv =
     \<lparr> stringToNumber = (\<lambda>s. None), numberToString = (\<lambda>x. []),
       parseDate = (\<lambda>s. if s = ''2024-01-01T10:00:00.000Z'' then Some 1704103200000 else None),
       toISOString = (\<lambda>t. []), toLocaleString = (\<lambda>t. []), toLowerCase = (\<lambda>s. s),
       fitTime = (\<lambda>t. t / 1000 - 631065600), rnd = (\<lambda>x. x) \<rparr>"

definition recordMessage :: "js_env \<Rightarrow> real \<Rightarrow> FitRecord \<Rightarrow> fit_message" where
  \<comment> \<open>the message that the loop over \<open>records\<close> writes for one record\<close>
  "recordMessage env sMs r =
     \<lparr> msg_kind = ''record'', msg_fields = recordFields env sMs r, msg_lastUse = False \<rparr>"

definition recordsOf :: "fit_writer \<Rightarrow> fit_message list" where
  \<comment> \<open>the record messages among the messages handed to the writer, in their order\<close>
  "recordsOf fit = filter (\<lambda>m. msg_kind m = ''record'') fit"

definition numberOf :: "string \<Rightarrow> fit_message \<Rightarrow> real option" where
  \<comment> \<open>the number in a field of a message, \<open>None\<close> when the message has no such field,
     or the field is \<open>undefined\<close> or a string\<close>
  "numberOf k m = (case map_of (msg_fields m) k of Some (Some (FNum x)) \<Rightarrow> Some x | _ \<Rightarrow> None)"

definition sampleOffsets :: "Workout \<Rightarrow> real list" where
  \<comment> \<open>the offsets in seconds of the sample points: the rounded offsets of the sorted
     series, or the synthetic offsets every five seconds\<close>
  "sampleOffsets w =
     (if hasSeries w then map (\<lambda>p. max 0 (Math_round (tSec p))) (sortedSeries w)
      else map (\<lambda>i. min (totalSeconds w) (real i * 5)) (syntheticIndices (totalSeconds w)))"

definition proRated :: "js_env \<Rightarrow> real \<Rightarrow> real \<Rightarrow> real \<Rightarrow> real" where
  \<comment> \<open>\<open>total * (t / seriesTotal)\<close> in the arithmetic of doubles: the quotient is
     rounded, then the product\<close>
  "proRated env d t seriesTotal = rnd env (d * rnd env (t / seriesTotal))"

definition plainIdentity :: "json \<Rightarrow> bool" where
  \<comment> \<open>the \<open>id\<close>, \<open>on\<close> and \<open>activityName\<close> of a raw record, where present, convert
     to a string\<close>
  "plainIdentity r =
     (let rawRec = asRecord (Some r)
      in list_all (\<lambda>k. case getProp rawRec k of None \<Rightarrow> True | Some v \<Rightarrow> stringable v)
           [''id'', ''on'', ''activityName''])"

definition agreeExcept :: "nat \<Rightarrow> store \<Rightarrow> store \<Rightarrow> bool" where
  \<comment> \<open>the two stores have the same points, metrics objects and arrays, but for the
     array at one address\<close>
  "agreeExcept n st st' =
     (points st' = points st \<and> metricsObjs st' = metricsObjs st \<and>
      (\<forall>a. a \<noteq> n \<longrightarrow> arrays st' ! a = arrays st ! a))"

definition exStore :: store where
  \<comment> \<open>a store with one series array of two points, out of order, and one metrics
     object\<close>
  "exStore =
     \<lparr> arrays = [[0, 1]], points = [exPoint 25 (Some 150), exPoint 0 None],
       metricsObjs = [[(''AvgHr'', 130)]], recordObjs = [] \<rparr>"

definition exWorkoutRef :: WorkoutRef where
  \<comment> \<open>the workout of \<open>exStore\<close>\<close>
  "exWorkoutRef =
     \<lparr> uid = ''json-1'', source = Indoor, w_id = ''1'',
       startedAtISO = Some ''2024-01-01T10:00:00.000Z'',
       startedAtDisplay = ''2024-01-01'', activityName = ''Run'',
       durationSec = Some 100, calories = None, distanceM = Some 1000, w_verticalM = None,
       cadenceSpm = None, exportOpts = exOpts, metrics = 0,
       metricKeys = [''AvgHr''], series = Some 0, raw = JNull \<rparr>"

section \<open>Heart rate interpolation\<close>




















section \<open>The forward-fill pass\<close>

lemma mostRecent_Nil: "mostRecent [] = None"
  by (simp add: mostRecent_def List.map_filter_simps)

lemma mostRecent_Cons:
  "mostRecent (h # hs) = (case mostRecent hs of Some v \<Rightarrow> Some v | None \<Rightarrow> h)"
  by (cases h) (auto simp: mostRecent_def List.map_filter_simps Let_def)

lemma length_fillFrom: "length (fillFrom prev rs) = length rs"
  by (induction rs arbitrary: prev) (auto split: option.splits)

lemma fillFrom_nth:
  "i < length rs \<Longrightarrow>
   r_hr (fillFrom prev rs ! i) =
     Some (case mostRecent (take (Suc i) (map r_hr rs)) of Some h \<Rightarrow> h | None \<Rightarrow> prev)"
proof (induction rs arbitrary: prev i)
  case Nil
  then show ?case by simp
next
  case (Cons r rs)
  show ?case
  proof (cases i)
    case 0
    then show ?thesis
      by (cases "r_hr r") (simp_all add: mostRecent_Cons mostRecent_Nil)
  next
    case (Suc j)
    with Cons.prems have j: "j < length rs" by simp
    show ?thesis
    proof (cases "r_hr r")
      case None
      with Suc Cons.IH [OF j, of prev] show ?thesis
        by (simp add: mostRecent_Cons split: option.splits)
    next
      case (Some h)
      with Suc Cons.IH [OF j, of h] show ?thesis
        by (simp add: mostRecent_Cons split: option.splits)
    qed
  qed
qed

lemma fillFrom_other_fields:
  "map (\<lambda>r. r\<lparr>r_hr := None\<rparr>) (fillFrom prev rs) = map (\<lambda>r. r\<lparr>r_hr := None\<rparr>) rs"
  by (induction rs arbitrary: prev) (auto split: option.splits)

lemma firstKnown_eq:
  "firstKnown rs = (case List.map_filter id (map r_hr rs) of [] \<Rightarrow> None | h # hs \<Rightarrow> Some h)"
  by (induction rs) (auto simp: List.map_filter_simps split: option.splits)

lemma firstKnown_None_mostRecent:
  "firstKnown rs = None \<Longrightarrow> mostRecent (take n (map r_hr rs)) = None"
  by (induction rs arbitrary: n)
     (auto simp: mostRecent_Cons mostRecent_Nil take_Cons split: option.splits nat.splits)

section \<open>Rounding, durations and the synthetic samples\<close>

lemma Math_round_of_int: "Math_round (of_int k) = of_int k"
proof -
  have "\<lfloor>(of_int k :: real) + 1 / 2\<rfloor> = k"
    by (rule floor_unique) simp_all
  then show ?thesis by (simp add: Math_round_def)
qed

lemma Math_round_numeral: "Math_round (numeral n) = numeral n"
  using Math_round_of_int [of "numeral n"] by simp

lemma Math_round_0: "Math_round 0 = 0"
  by (simp add: Math_round_def)




section \<open>The series path\<close>

lemma Math_round_mono: "x \<le> y \<Longrightarrow> Math_round x \<le> Math_round y"
  by (simp add: Math_round_def floor_mono)

lemma offset_mono: "x \<le> y \<Longrightarrow> max 0 (Math_round x) \<le> max 0 (Math_round y)"
  using Math_round_mono [of x y] by (simp add: max_def)

lemma offset_of_nat: "max 0 (Math_round (real n)) = real n"
  using Math_round_of_int [of "int n"] by simp

lemma sorted_map_mono:
  "sorted (map g xs) \<Longrightarrow> (\<And>x y. x \<le> y \<Longrightarrow> f x \<le> f y) \<Longrightarrow> sorted (map (\<lambda>x. f (g x)) xs)"
  by (induction xs) auto

lemma sorted_sortSeries: "sorted (map tSec (sortSeries xs))"
  by (simp add: sortSeries_def)

lemma mset_sortSeries: "mset (sortSeries xs) = mset xs"
  by (simp add: sortSeries_def)

lemma length_sortSeries: "length (sortSeries xs) = length xs"
  by (simp add: sortSeries_def)




lemma sortSeries_Nil_iff: "sortSeries xs = [] \<longleftrightarrow> xs = []"
  using length_sortSeries [of xs] by (metis length_0_conv)

lemma map_r_tSec_fillFrom: "map r_tSec (fillFrom prev rs) = map r_tSec rs"
  by (induction rs arbitrary: prev) (auto split: option.splits)

lemma map_r_dist_fillFrom: "map r_dist (fillFrom prev rs) = map r_dist rs"
  by (induction rs arbitrary: prev) (auto split: option.splits)

lemma map_r_tSec_forwardFill: "map r_tSec (forwardFill opts a m rs) = map r_tSec rs"
  by (simp add: forwardFill_def map_r_tSec_fillFrom split: option.splits)

lemma map_r_dist_forwardFill: "map r_dist (forwardFill opts a m rs) = map r_dist rs"
  by (simp add: forwardFill_def map_r_dist_fillFrom split: option.splits)

lemma length_forwardFill: "length (forwardFill opts a m rs) = length rs"
  by (simp add: forwardFill_def length_fillFrom split: option.splits)


lemma fit_series_offsets:
  "hasSeries w \<Longrightarrow>
   map r_tSec (fitRecords env w opts) = map (\<lambda>p. max 0 (Math_round (tSec p))) (sortedSeries w)"
  by (simp add: fitRecords_def fitSeriesRecords_def map_r_tSec_forwardFill fitSeriesRecord_def
        Let_def o_def)

lemma tcx_series_dist:
  "hasSeries w \<Longrightarrow>
   map tp_dist (tcxTrackpoints env w opts) =
     map (\<lambda>p. if totalDistanceM w opts \<noteq> None \<and> seriesTotalSec w (sortedSeries w) > 0
              then js_mul env (the (totalDistanceM w opts))
                     (js_div env (max 0 (Math_round (tSec p)))
                        (seriesTotalSec w (sortedSeries w)))
              else 0) (sortedSeries w)"
  by (simp add: tcxTrackpoints_def tcxSeriesPoint_def Let_def o_def)

lemma fit_series_dist:
  "hasSeries w \<Longrightarrow>
   map r_dist (fitRecords env w opts) =
     map (\<lambda>p. if totalDistanceM w opts \<noteq> None \<and> seriesTotalSec w (sortedSeries w) > 0
              then js_mul env (the (totalDistanceM w opts))
                     (js_div env (max 0 (Math_round (tSec p)))
                        (seriesTotalSec w (sortedSeries w)))
              else 0) (sortedSeries w)"
  by (simp add: fitRecords_def fitSeriesRecords_def map_r_dist_forwardFill fitSeriesRecord_def
        Let_def o_def)

lemma seriesTotalSec_eq:
  "hasSeries w \<Longrightarrow>
   seriesTotalSec w (sortedSeries w) = max (totalSeconds w) (tSec (last (sortedSeries w)))"
proof -
  assume "hasSeries w"
  then have "seriesOf w \<noteq> []"
    by (auto simp: hasSeries_def seriesOf_def split: option.splits)
  then have ne: "sortedSeries w \<noteq> []"
    by (simp add: sortedSeries_def sortSeries_Nil_iff)
  then show ?thesis
    by (simp add: seriesTotalSec_def last_conv_nth)
qed

lemma renderTrackpoint_distance:
  "\<exists>alt rest. renderTrackpoint env sMs tp =
     nl @ sp 8 @ ''<Trackpoint>'' @ nl @
     sp 10 @ ''<Time>'' @ toISOString env (sMs + tp_t tp * 1000) @ ''</Time>'' @ nl @
     sp 10 @ alt @ nl @
     sp 10 @ ''<DistanceMeters>'' @ toFixed1 env (tp_dist tp) @ ''</DistanceMeters>'' @ nl @ rest"
  unfolding renderTrackpoint_def by (intro exI) (rule refl)

lemma tcxSeriesPoint_t: "tp_t (tcxSeriesPoint env w opts T p) = max 0 (Math_round (tSec p))"
  by (simp add: tcxSeriesPoint_def Let_def)

lemma tcxSeriesPoint_dist:
  "totalDistanceM w opts = Some D \<Longrightarrow> 0 < T \<Longrightarrow>
   tp_dist (tcxSeriesPoint env w opts T p) = proRated env D (max 0 (Math_round (tSec p))) T"
  by (simp add: tcxSeriesPoint_def Let_def proRated_def js_mul_def js_div_def)

lemma tcxPoints_series:
  "hasSeries w \<Longrightarrow>
   tcxPoints env clk w opts =
     map (\<lambda>p. renderTrackpoint env (startMs env clk w)
                (tcxSeriesPoint env w opts (seriesTotalSec w (sortedSeries w)) p)) (sortedSeries w)"
  by (simp add: tcxPoints_def tcxTrackpoints_def o_def)

lemma infix_here:
  "\<exists>pre post. m1 @ m2 @ m3 @ m4 @ m5 @ m6 @ r = pre @ m1 @ m2 @ m3 @ m4 @ m5 @ m6 @ post"
  by (rule exI [of _ "[]"], rule exI [of _ r]) simp

lemma infix_later: "\<exists>pre post. x = pre @ f post \<Longrightarrow> \<exists>pre post. a @ x = pre @ f post"
proof -
  assume "\<exists>pre post. x = pre @ f post"
  then obtain pre post where "x = pre @ f post" by blast
  then have "a @ x = (a @ pre) @ f post" by simp
  then show ?thesis by blast
qed

lemma workoutToTCX_track:
  "\<exists>pre post. workoutToTCX env clk w opts =
     pre @ sp 8 @ ''<Track>'' @ joinWith nl (tcxPoints env clk w opts) @ nl @ sp 8 @ ''</Track>'' @ post"
  unfolding workoutToTCX_def tcxDocument_def Let_def
  by (rule infix_here | rule infix_later)+

lemma integer_offsets:
  assumes "\<forall>p \<in> set (seriesOf w). \<exists>n. tSec p = real n"
  shows "map (\<lambda>p. max 0 (Math_round (tSec p))) (sortedSeries w) = map tSec (sortedSeries w)"
proof -
  have "set (sortedSeries w) = set (seriesOf w)"
    using arg_cong [OF mset_sortSeries [of "seriesOf w"], of set_mset]
    by (simp add: sortedSeries_def)
  with assms have "max 0 (Math_round (tSec p)) = tSec p" if "p \<in> set (sortedSeries w)" for p
    using that offset_of_nat by auto
  then show ?thesis by simp
qed

lemma toFixed1_250: "toFixed1 env 250 = ''250.0''"
  by (simp add: toFixed1_def Let_def digitsOf.simps [of 250] digitsOf.simps [of 25]
        digitsOf.simps [of 2] digitsOf.simps [of 0] digitChar_def)

lemma toFixed1_third: "toFixed1 env (1000 * (1 / 3)) = ''333.3''"
proof -
  have "\<lfloor>(1000::real) * 10 / 3 + 1 / 2\<rfloor> = 3333" by linarith
  then show ?thesis
    by (simp add: toFixed1_def Let_def digitsOf.simps [of 333] digitsOf.simps [of 33]
          digitsOf.simps [of 3] digitChar_def)
qed

lemma toFixed1_3333: "toFixed1 env (3333 / 10) = ''333.3''"
proof -
  have "\<lfloor>(3333::real) + 1 / 2\<rfloor> = 3333" by linarith
  then show ?thesis
    by (simp add: toFixed1_def Let_def digitsOf.simps [of 333] digitsOf.simps [of 33]
          digitsOf.simps [of 3] digitChar_def)
qed
section \<open>The sequence of messages\<close>

lemma writeRecords_eq: "writeRecords env sMs rs fit = fit @ map (recordMessage env sMs) rs"
  unfolding writeRecords_def
  by (induction rs arbitrary: fit) (simp_all add: writeMessage_def recordMessage_def)

lemma kinds_writeHeader:
  "map msg_kind (writeHeader s enh fit) =
     map msg_kind fit @ [''file_id''] @
     (if enh then [''file_creator'', ''device_info'', ''event''] else [])"
  by (simp add: writeHeader_def writeMessage_def Let_def)

lemma kinds_writeSummary:
  "map msg_kind (writeSummary env sMs w opts enh rs fit) =
     map msg_kind fit @ [''lap'', ''session'', ''activity''] @
     (if enh then [''event'', ''device_info''] else [])"
  by (simp add: writeSummary_def writeMessage_def Let_def)

lemma writeHeader_append: "writeHeader s enh fit = fit @ writeHeader s enh []"
  by (simp add: writeHeader_def writeMessage_def Let_def)

lemma writeSummary_append:
  "writeSummary env sMs w opts enh rs fit = fit @ writeSummary env sMs w opts enh rs []"
  by (simp add: writeSummary_def writeMessage_def Let_def)

lemma record_not_in_header: "filter (\<lambda>m. msg_kind m = ''record'') (writeHeader s enh []) = []"
  by (simp add: writeHeader_def writeMessage_def Let_def)

lemma record_not_in_summary:
  "filter (\<lambda>m. msg_kind m = ''record'') (writeSummary env sMs w opts enh rs []) = []"
  by (simp add: writeSummary_def writeMessage_def Let_def)

lemma filter_recordMessages:
  "filter (\<lambda>m. msg_kind m = ''record'') (map (recordMessage env sMs) rs) = map (recordMessage env sMs) rs"
  by (induction rs) (simp_all add: recordMessage_def)

lemma workoutToFIT_eq:
  "workoutToFIT env clk w opts enh =
     writeHeader (fitTime env (startMs env clk w)) enh [] @
     map (recordMessage env (startMs env clk w)) (fitRecords env w opts) @
     writeSummary env (startMs env clk w) w opts enh (fitRecords env w opts) []"
  unfolding workoutToFIT_def Let_def
  by (subst writeSummary_append) (simp add: writeRecords_eq)

lemma sorted_synthetic_offsets: "sorted (map (\<lambda>i. min s (real i * 5)) [0..<n])"
proof -
  have "sorted (map (\<lambda>i. i) [0..<n])" by simp
  then show ?thesis
    by (rule sorted_map_mono [where f = "\<lambda>i. min s (real i * 5)" and g = "\<lambda>i. i"]) (simp add: min_def)
qed

lemma sorted_fit_offsets: "sorted (map r_tSec (fitRecords env w opts))"
proof (cases "hasSeries w")
  case True
  have "sorted (map tSec (sortedSeries w))"
    by (simp add: sortedSeries_def sorted_sortSeries)
  then have "sorted (map (\<lambda>p. max 0 (Math_round (tSec p))) (sortedSeries w))"
    by (rule sorted_map_mono) (rule offset_mono)
  with True show ?thesis by (simp add: fit_series_offsets)
next
  case False
  then have "map r_tSec (fitRecords env w opts) =
      map (\<lambda>i. min (totalSeconds w) (real i * 5)) [0..<nat \<lceil>syntheticCount (totalSeconds w)\<rceil>]"
    by (simp add: fitRecords_def fitSyntheticRecord_def syntheticIndices_def Let_def o_def)
  then show ?thesis by (simp only: sorted_synthetic_offsets)
qed

lemma length_fitRecords:
  "length (fitRecords env w opts) =
     (if hasSeries w then length (seriesOf w) else length (syntheticIndices (totalSeconds w)))"
  by (simp add: fitRecords_def fitSeriesRecords_def length_forwardFill sortedSeries_def
        length_sortSeries)

lemma fit_offsets: "map r_tSec (fitRecords env w opts) = sampleOffsets w"
proof (cases "hasSeries w")
  case True
  then show ?thesis by (simp add: fit_series_offsets sampleOffsets_def)
next
  case False
  then show ?thesis
    by (simp add: fitRecords_def fitSyntheticRecord_def sampleOffsets_def Let_def o_def)
qed

lemma sorted_sampleOffsets: "sorted (sampleOffsets w)"
  using sorted_fit_offsets [of exEnv w exOpts] by (simp add: fit_offsets)

lemma length_sampleOffsets:
  "length (sampleOffsets w) =
     (if hasSeries w then length (seriesOf w) else length (syntheticIndices (totalSeconds w)))"
  by (simp add: sampleOffsets_def sortedSeries_def length_sortSeries)

lemma recordsOf_workoutToFIT:
  "recordsOf (workoutToFIT env clk w opts enh) =
     map (recordMessage env (startMs env clk w)) (fitRecords env w opts)"
  using filter_recordMessages [of env "startMs env clk w" "fitRecords env w opts"]
  by (simp add: recordsOf_def workoutToFIT_eq record_not_in_header record_not_in_summary)

lemma timestamp_recordMessage:
  "numberOf ''timestamp'' (recordMessage env sMs r) = Some (fitTime env (sMs + r_tSec r * 1000))"
  by (simp add: numberOf_def recordMessage_def recordFields_def fnum_def)

lemma distance_recordMessage:
  "numberOf ''distance'' (recordMessage env sMs r) = Some (r_dist r)"
  by (simp add: numberOf_def recordMessage_def recordFields_def fnum_def)

lemma record_timestamps:
  "map (numberOf ''timestamp'') (recordsOf (workoutToFIT env clk w opts enh)) =
     map (\<lambda>t. Some (fitTime env (startMs env clk w + t * 1000))) (sampleOffsets w)"
proof -
  have "map (numberOf ''timestamp'') (recordsOf (workoutToFIT env clk w opts enh)) =
        map (\<lambda>t. Some (fitTime env (startMs env clk w + t * 1000)))
          (map r_tSec (fitRecords env w opts))"
    by (simp add: recordsOf_workoutToFIT timestamp_recordMessage o_def)
  then show ?thesis by (simp only: fit_offsets)
qed

lemma record_distances:
  "map (numberOf ''distance'') (recordsOf (workoutToFIT env clk w opts enh)) =
     map Some (map r_dist (fitRecords env w opts))"
  by (simp add: recordsOf_workoutToFIT distance_recordMessage o_def)
section \<open>The start time, and the indoor normalizer on plain records\<close>

lemma startISO_valid:
  "startedAtISO w = Some s \<Longrightarrow> s \<noteq> [] \<Longrightarrow> startISO env clk w = s"
  by (simp add: startISO_def truthyString_def)

lemma startMs_valid:
  "startedAtISO w = Some s \<Longrightarrow> s \<noteq> [] \<Longrightarrow> parseDate env s = Some t \<Longrightarrow> startMs env clk w = t"
  by (simp add: startMs_def startISO_valid)

lemma sequenceE_all_Inr:
  "(\<And>x. x \<in> set xs \<Longrightarrow> f x = Inr (g x)) \<Longrightarrow> sequenceE (map f xs) = Inr (map g xs)"
  by (induction xs) (simp_all add: bindE_def)

lemma js_String_stringable: "stringable v \<Longrightarrow> js_String env v = Inr (js_toString env v)"
  by (simp add: js_String_def)

lemma indoorWorkout_plain:
  assumes "plainIdentity r"
  shows "\<exists>w. indoorWorkout env r idx = Inr w \<and> metrics w = prToMap env r \<and> raw w = r"
proof -
  let ?rec = "asRecord (Some r)"
  have p: "getProp ?rec k = Some v \<Longrightarrow> k \<in> {''id'', ''on'', ''activityName''} \<Longrightarrow> stringable v" for k v
    using assms by (auto simp: plainIdentity_def Let_def)
  have id: "\<not> nullish (getProp ?rec ''id'') \<Longrightarrow> stringable (the (getProp ?rec ''id''))"
    using p [of "''id''"] by (auto simp: nullish_def)
  have on: "stringable (if nullish (getProp ?rec ''on'') then JStr d else the (getProp ?rec ''on''))" for d
    using p [of "''on''"] by (auto simp: nullish_def)
  have name: "stringable (case getProp ?rec ''activityName'' of
                 Some v \<Rightarrow> if truthy v then v else JStr d | None \<Rightarrow> JStr d)" for d
    using p [of "''activityName''"] by (auto split: option.splits)
  show ?thesis
    unfolding indoorWorkout_def Let_def
    using id on name
    by (simp add: js_String_def bindE_def)
qed

lemma indoor_normalizer_plain:
  assumes "list_all plainIdentity items"
  shows "\<exists>ws. extractWorkoutsFromIndoorJSON env (JArr items) = Inr ws
           \<and> length ws = length items
           \<and> map metrics ws = map (prToMap env) items"
proof -
  define g where "g = (\<lambda>(r, idx). projr (indoorWorkout env r idx))"
  have e: "indoorWorkout env r idx = Inr (g (r, idx)) \<and> metrics (g (r, idx)) = prToMap env r"
    if "plainIdentity r" for r idx
  proof -
    from indoorWorkout_plain [OF that, of env idx]
    obtain w where "indoorWorkout env r idx = Inr w" "metrics w = prToMap env r" by blast
    then show ?thesis by (simp add: g_def)
  qed
  have s: "fst x \<in> set items" if "x \<in> set (zip items [0..<length items])" for x
    using that set_zip_leftD [of "fst x" "snd x" items "[0..<length items]"] by simp
  have pl: "plainIdentity (fst x)" if "x \<in> set (zip items [0..<length items])" for x
    using s [OF that] assms by (simp add: list_all_iff)
  have "sequenceE (map (\<lambda>(rawv, idx). indoorWorkout env rawv idx) (zip items [0..<length items])) =
        Inr (map g (zip items [0..<length items]))"
  proof (rule sequenceE_all_Inr)
    fix x assume "x \<in> set (zip items [0..<length items])"
    from e [OF pl [OF this], of "snd x"] show "(case x of (rawv, idx) \<Rightarrow> indoorWorkout env rawv idx) = Inr (g x)"
      by (cases x) simp
  qed
  moreover have "map metrics (map g (zip items [0..<length items])) = map (prToMap env) items"
  proof -
    have "map (metrics \<circ> g) (zip items [0..<length items]) = map (prToMap env \<circ> fst) (zip items [0..<length items])"
    proof (rule map_cong [OF refl])
      fix x assume "x \<in> set (zip items [0..<length items])"
      from e [OF pl [OF this], of "snd x"] show "(metrics \<circ> g) x = (prToMap env \<circ> fst) x"
        by (cases x) simp
    qed
    then show ?thesis by (simp add: map_fst_zip flip: map_map)
  qed
  ultimately show ?thesis
    by (simp add: extractWorkoutsFromIndoorJSON_def)
qed

lemma prToMap_examples:
  "prToMap env (JObj []) = []"
  "prToMap env (JObj [(''performedData'', JObj [(''pr'', JStr ''x'')])]) = []"
  "stringToNumber env ''abc'' = None \<Longrightarrow>
   prToMap env (JObj [(''performedData'', JObj [(''pr'',
      JArr [JObj [(''n'', JStr ''Duration''), (''v'', JStr ''abc'')],
            JNum 3,
            JObj [(''n'', JStr ''Calories''), (''v'', JNum 12)]])])]) = [(''Calories'', 12)]"
  by (simp_all add: prToMap_def asRecord_def getProp_def jcoalesce_def nullish_def safeNumber_def
        setMetric_def Let_def)

section \<open>The encoders on a store and on values\<close>

lemma map_insort_key:
  "map f (insort_key (\<lambda>x. k (f x)) x xs) = insort_key k (f x) (map f xs)"
  by (induction xs) auto

lemma map_sort_key: "map f (sort_key (\<lambda>x. k (f x)) xs) = sort_key k (map f xs)"
  by (induction xs) (auto simp: map_insort_key)

lemma map_nth_upt_append:
  "map ((!) (xs @ ys)) [length xs..<length xs + length ys] = ys"
  by (rule nth_equalityI) (auto simp: nth_append)

lemma totalSeconds_deref: "totalSeconds (deref st w) = totalSeconds w"
  by (simp add: totalSeconds_def deref_def)

lemma seriesTotalSec_deref: "seriesTotalSec (deref st w) xs = seriesTotalSec w xs"
  by (simp add: seriesTotalSec_def totalSeconds_deref)

lemma startMs_deref: "startMs env clk (deref st w) = startMs env clk w"
  by (simp add: startMs_def startISO_def deref_def)

lemma seriesOf_deref:
  "seriesOf (deref st w) = (case series w of Some a \<Rightarrow> pointsAt st a | None \<Rightarrow> [])"
  by (simp add: seriesOf_def deref_def split: option.splits)

lemma deref_agree:
  "agreeExcept n st st' \<Longrightarrow> series w \<noteq> Some n \<Longrightarrow> deref st' w = deref st w"
  by (cases "series w") (auto simp: agreeExcept_def deref_def pointsAt_def)

lemma pointsAt_agree:
  "agreeExcept n st st' \<Longrightarrow> a \<noteq> n \<Longrightarrow> pointsAt st' a = pointsAt st a"
  by (simp add: agreeExcept_def pointsAt_def)

lemma deref_unchanged:
  assumes "unchanged st st'" "wellFormed st w"
  shows "deref st' w = deref st w"
proof (cases "series w")
  case None
  with assms show ?thesis by (simp add: unchanged_def deref_def)
next
  case (Some a)
  with assms(2) have a: "a < length (arrays st)" by (simp add: wellFormed_def)
  have "arrays st' ! a = take (length (arrays st)) (arrays st') ! a"
    using a by simp
  also have "\<dots> = arrays st ! a" using assms(1) by (simp add: unchanged_def)
  finally show ?thesis using assms(1) Some by (simp add: unchanged_def deref_def pointsAt_def)
qed

lemma foldl_pushRecord:
  assumes F: "\<And>st' x. agreeExcept n st st' \<Longrightarrow> F st' x = G x"
    and n: "n < length (arrays st)"
  shows "foldl (\<lambda>s x. pushRecord n (F s x) s) st xs =
         st\<lparr>recordObjs := recordObjs st @ map G xs,
            arrays := (arrays st)[n := arrays st ! n @
                        [length (recordObjs st)..<length (recordObjs st) + length xs]]\<rparr>"
proof (induction xs rule: rev_induct)
  case Nil
  then show ?case by simp
next
  case (snoc x xs)
  let ?s = "st\<lparr>recordObjs := recordObjs st @ map G xs,
            arrays := (arrays st)[n := arrays st ! n @
                        [length (recordObjs st)..<length (recordObjs st) + length xs]]\<rparr>"
  have "agreeExcept n st ?s" by (simp add: agreeExcept_def)
  then have G: "F ?s x = G x" by (rule F)
  have "foldl (\<lambda>s x. pushRecord n (F s x) s) st (xs @ [x]) = pushRecord n (F ?s x) ?s"
    by (simp add: snoc.IH)
  also have "\<dots> = pushRecord n (G x) ?s" by (simp only: G)
  also have "\<dots> = st\<lparr>recordObjs := recordObjs st @ map G (xs @ [x]),
            arrays := (arrays st)[n := arrays st ! n @
                        [length (recordObjs st)..<length (recordObjs st) + length (xs @ [x])]]\<rparr>"
    using n by (simp add: pushRecord_def)
  finally show ?case .
qed

lemma fillFrom_st_eq:
  "recordObjs st = pre @ rs \<Longrightarrow>
   fillFrom_st prev [length pre..<length pre + length rs] st =
     st\<lparr>recordObjs := pre @ fillFrom prev rs\<rparr>"
proof (induction rs arbitrary: pre prev st)
  case Nil
  then show ?case by simp
next
  case (Cons r rs)
  have u: "[length pre..<length pre + length (r # rs)] =
           length pre # [length (pre @ [r'])..<length (pre @ [r']) + length rs]" for r' :: FitRecord
    by (subst upt_rec) simp
  show ?case
  proof (cases "r_hr r")
    case None
    let ?r = "r\<lparr>r_hr := Some prev\<rparr>"
    have "recordObjs (setHr (length pre) prev st) = (pre @ [?r]) @ rs"
      using Cons.prems by (simp add: setHr_def)
    from Cons.IH [OF this, of prev] None Cons.prems show ?thesis
      by (simp only: u [of ?r]) (simp add: setHr_def)
  next
    case (Some h)
    have "recordObjs st = (pre @ [r]) @ rs" using Cons.prems by simp
    from Cons.IH [OF this, of h] Some Cons.prems show ?thesis
      by (simp only: u [of r]) simp
  qed
qed


lemma unchanged_refl: "unchanged st st"
  by (simp add: unchanged_def)

lemma sortedCopy_eq:
  "sortedCopy w st =
     (length (arrays st),
      st\<lparr>arrays := arrays st @
            [sort_key (\<lambda>p. tSec (points st ! p))
               (case series w of Some s \<Rightarrow> arrays st ! s | None \<Rightarrow> [])]\<rparr>)"
  by (simp add: sortedCopy_def newArray_def sortByTSec_def)

lemma pointsAt_sortedCopy:
  "pointsAt (snd (sortedCopy w st)) (fst (sortedCopy w st)) = sortedSeries (deref st w)"
proof -
  have "map ((!) (points st)) (sort_key (\<lambda>p. tSec (points st ! p)) xs) =
        sort_key tSec (map ((!) (points st)) xs)" for xs
    by (rule map_sort_key)
  then show ?thesis
    by (cases "series w")
       (simp_all add: sortedCopy_eq pointsAt_def sortedSeries_def sortSeries_def seriesOf_deref)
qed

lemma unchanged_sortedCopy: "unchanged st (snd (sortedCopy w st))"
  by (simp add: sortedCopy_eq unchanged_def)

lemma tcxTrackpoints_st_correct:
  assumes "wellFormed st w"
  shows "fst (tcxTrackpoints_st env w opts st) = tcxTrackpoints env (deref st w) opts"
    and "unchanged st (snd (tcxTrackpoints_st env w opts st))"
proof -
  obtain a st1 where sc: "sortedCopy w st = (a, st1)" by (cases "sortedCopy w st")
  have u: "unchanged st st1" using unchanged_sortedCopy [of st w] sc by simp
  have d: "deref st1 w = deref st w" using u assms by (rule deref_unchanged)
  have p: "pointsAt st1 a = sortedSeries (deref st w)"
    using pointsAt_sortedCopy [of w st] sc by simp
  have m: "map (\<lambda>p. f (points st1 ! p)) (arrays st1 ! a) = map f (pointsAt st1 a)" for f :: "SeriesPoint \<Rightarrow> Trackpoint"
    by (simp add: pointsAt_def o_def)
  show "fst (tcxTrackpoints_st env w opts st) = tcxTrackpoints env (deref st w) opts"
    by (simp add: tcxTrackpoints_st_def tcxTrackpoints_def sc m p d seriesTotalSec_deref
          totalSeconds_deref)
  show "unchanged st (snd (tcxTrackpoints_st env w opts st))"
    using u by (simp add: tcxTrackpoints_st_def sc unchanged_refl)
qed

lemma workoutToTCX_st_correct:
  assumes "wellFormed st w"
  shows "fst (workoutToTCX_st env clk w opts st) = workoutToTCX env clk (deref st w) opts"
    and "unchanged st (snd (workoutToTCX_st env clk w opts st))"
proof -
  obtain tps st1 where t: "tcxTrackpoints_st env w opts st = (tps, st1)"
    by (cases "tcxTrackpoints_st env w opts st")
  from tcxTrackpoints_st_correct [OF assms, where opts = opts and env = env] t
  have tps: "tps = tcxTrackpoints env (deref st w) opts" and u: "unchanged st st1" by simp_all
  have d: "deref st1 w = deref st w" using u assms by (rule deref_unchanged)
  show "fst (workoutToTCX_st env clk w opts st) = workoutToTCX env clk (deref st w) opts"
    by (simp add: workoutToTCX_st_def t tps d workoutToTCX_def tcxPoints_def startMs_deref)
  show "unchanged st (snd (workoutToTCX_st env clk w opts st))"
    using u by (simp add: workoutToTCX_st_def t)
qed


lemma recordsAt_pushed:
  "n < length A \<Longrightarrow>
   recordsAt (st\<lparr>recordObjs := R @ rs, arrays := A[n := [length R..<length R + length rs]]\<rparr>) n = rs"
  by (simp add: recordsAt_def map_nth_upt_append)

lemma forwardFill_st_eq:
  assumes "recordObjs st = R @ rs" and "arrays st ! n = [length R..<length R + length rs]"
  shows "forwardFill_st opts avgHr maxHr n st =
         st\<lparr>recordObjs := R @ forwardFill opts avgHr maxHr rs\<rparr>"
proof -
  have r: "recordsAt st n = rs"
    using assms by (simp add: recordsAt_def map_nth_upt_append)
  have e: "st\<lparr>recordObjs := R @ rs\<rparr> = st" using assms(1) by simp
  have l: "length (arrays st ! n) = length rs" by (simp add: assms(2))
  show ?thesis
  proof (cases "includeHrSeries opts \<and> length rs > 0")
    case False
    then show ?thesis
      unfolding forwardFill_st_def forwardFill_def l using e by auto
  next
    case True
    show ?thesis
    proof (cases "fallbackHr avgHr maxHr rs")
      case None
      with True show ?thesis
        unfolding forwardFill_st_def forwardFill_def l r using e by simp
    next
      case (Some f)
      with True show ?thesis
        unfolding forwardFill_st_def forwardFill_def l r
        using fillFrom_st_eq [OF assms(1), of f] by (simp add: assms(2))
    qed
  qed
qed

lemma fitRecords_st_synthetic:
  assumes wf: "wellFormed st0 w" and ns: "\<not> hasSeries (deref st0 w)"
  shows "fitRecords_st env w opts st0 =
     (length (arrays st0),
      st0\<lparr>recordObjs := recordObjs st0 @ fitRecords env (deref st0 w) opts,
          arrays := arrays st0 @
            [[length (recordObjs st0)..<
              length (recordObjs st0) + length (fitRecords env (deref st0 w) opts)]]\<rparr>)"
proof -
  let ?n = "length (arrays st0)"
  let ?st1 = "st0\<lparr>arrays := arrays st0 @ [[]]\<rparr>"
  let ?G = "fitSyntheticRecord env (deref st0 w) opts"
  have u1: "unchanged st0 ?st1" by (simp add: unchanged_def)
  have d1: "deref ?st1 w = deref st0 w" using u1 wf by (rule deref_unchanged)
  have sn: "series w \<noteq> Some ?n" using wf by (auto simp: wellFormed_def)
  have F: "fitSyntheticRecord env (deref st' w) opts i = ?G i" if "agreeExcept ?n ?st1 st'" for st' i
    using deref_agree [OF that sn] d1 by simp
  have "foldl (\<lambda>st i. pushRecord ?n (fitSyntheticRecord env (deref st w) opts i) st) ?st1
          (syntheticIndices (totalSeconds w)) =
        ?st1\<lparr>recordObjs := recordObjs ?st1 @ map ?G (syntheticIndices (totalSeconds w)),
             arrays := (arrays ?st1)[?n := arrays ?st1 ! ?n @
                 [length (recordObjs ?st1)..<
                  length (recordObjs ?st1) + length (syntheticIndices (totalSeconds w))]]\<rparr>"
    by (rule foldl_pushRecord [where G = ?G]) (simp_all add: F)
  moreover have "fitRecords env (deref st0 w) opts = map ?G (syntheticIndices (totalSeconds w))"
    using ns by (simp add: fitRecords_def totalSeconds_deref)
  ultimately show ?thesis
    using ns by (simp add: fitRecords_st_def newArray_def d1)
qed

lemma fitRecords_st_series:
  assumes wf: "wellFormed st0 w" and hs: "hasSeries (deref st0 w)"
  shows "\<exists>sa fa. fitRecords_st env w opts st0 =
     (length (arrays st0),
      st0\<lparr>recordObjs := recordObjs st0 @ fitRecords env (deref st0 w) opts,
          arrays := arrays st0 @
            [[length (recordObjs st0)..<
              length (recordObjs st0) + length (fitRecords env (deref st0 w) opts)], sa, fa]\<rparr>)"
proof -
  let ?n = "length (arrays st0)"
  let ?P = "points st0"
  let ?S = "sortedSeries (deref st0 w)"
  let ?total = "seriesTotalSec w ?S"
  let ?G = "\<lambda>p. fitSeriesRecord env (deref st0 w) opts (hrAnchors ?S) ?total (?P ! p)"
  define st1 where "st1 = st0\<lparr>arrays := arrays st0 @ [[]]\<rparr>"
  define sa where "sa = sort_key (\<lambda>p. tSec (?P ! p))
                          (case series w of Some s \<Rightarrow> arrays st1 ! s | None \<Rightarrow> [])"
  define fa where "fa = sort_key (\<lambda>p. tSec (?P ! p)) (filter (\<lambda>p. hr (?P ! p) \<noteq> None) sa)"
  define st4 where "st4 = st0\<lparr>arrays := arrays st0 @ [[], sa, fa]\<rparr>"
  have p1: "points st1 = ?P" and a1: "arrays st1 = arrays st0 @ [[]]"
    by (simp_all add: st1_def)
  have u1: "unchanged st0 st1" by (simp add: unchanged_def st1_def)
  have d1: "deref st1 w = deref st0 w" using u1 wf by (rule deref_unchanged)
  have u4: "unchanged st0 st4" by (simp add: unchanged_def st4_def)
  have d4: "deref st4 w = deref st0 w" using u4 wf by (rule deref_unchanged)
  have sn: "series w \<noteq> Some ?n" using wf by (auto simp: wellFormed_def)
  have sc: "sortedCopy w st1 = (Suc ?n, st1\<lparr>arrays := arrays st1 @ [sa]\<rparr>)"
    by (simp add: sortedCopy_eq sa_def p1 a1)
  have pS: "map ((!) ?P) sa = ?S"
    using pointsAt_sortedCopy [of w st1] by (simp add: sc pointsAt_def d1 nth_append p1 a1)
  have pa4: "pointsAt st4 (Suc ?n) = ?S"
    using pS by (simp add: pointsAt_def nth_append st4_def)
  have "map ((!) ?P) fa = sort_key tSec (map ((!) ?P) (filter (\<lambda>p. hr (?P ! p) \<noteq> None) sa))"
    unfolding fa_def by (rule map_sort_key)
  also have "map ((!) ?P) (filter (\<lambda>p. hr (?P ! p) \<noteq> None) sa) =
             filter (\<lambda>p. hr p \<noteq> None) (map ((!) ?P) sa)"
    by (simp add: filter_map o_def)
  finally have pF: "map toAnchor (map ((!) ?P) fa) = hrAnchors ?S"
    by (simp add: hrAnchors_def pS)
  have an4: "map toAnchor (pointsAt st4 (Suc (Suc ?n))) = hrAnchors ?S"
    using pF by (simp add: pointsAt_def nth_append st4_def)
  have F: "fitSeriesRecord env (deref st' w) opts (map toAnchor (pointsAt st' (Suc (Suc ?n))))
             (seriesTotalSec w (pointsAt st4 (Suc ?n))) (points st' ! p) = ?G p"
    if "agreeExcept ?n st4 st'" for st' p
  proof -
    have "deref st' w = deref st0 w" using deref_agree [OF that sn] d4 by simp
    moreover have "pointsAt st' (Suc (Suc ?n)) = pointsAt st4 (Suc (Suc ?n))"
      using that by (rule pointsAt_agree) simp
    moreover have "points st' = ?P" using that by (simp add: agreeExcept_def st4_def)
    ultimately show ?thesis by (simp only: an4 pa4)
  qed
  let ?step = "\<lambda>st p. pushRecord ?n
                 (fitSeriesRecord env (deref st w) opts (map toAnchor (pointsAt st (Suc (Suc ?n))))
                    (seriesTotalSec w (pointsAt st4 (Suc ?n))) (points st ! p)) st"
  have n4: "?n < length (arrays st4)" by (simp add: st4_def)
  have fold: "foldl ?step st4 sa =
        st4\<lparr>recordObjs := recordObjs st4 @ map ?G sa,
            arrays := (arrays st4)[?n := arrays st4 ! ?n @
                 [length (recordObjs st4)..<length (recordObjs st4) + length sa]]\<rparr>"
    using F n4 by (rule foldl_pushRecord [where G = ?G and F = "\<lambda>st p.
                 fitSeriesRecord env (deref st w) opts (map toAnchor (pointsAt st (Suc (Suc ?n))))
                    (seriesTotalSec w (pointsAt st4 (Suc ?n))) (points st ! p)"])
  let ?rs = "fitSeriesRecords env (deref st0 w) opts ?S"
  have rs: "map ?G sa = ?rs"
    using arg_cong [OF pS, of "map (fitSeriesRecord env (deref st0 w) opts (hrAnchors ?S) ?total)"]
    by (simp add: fitSeriesRecords_def o_def seriesTotalSec_deref)
  define st5 where "st5 = st0\<lparr>recordObjs := recordObjs st0 @ ?rs,
                  arrays := arrays st0 @
                    [[length (recordObjs st0)..<length (recordObjs st0) + length ?rs], sa, fa]\<rparr>"
  have l: "length sa = length ?rs"
    using arg_cong [OF rs, of length] by simp
  have st5: "foldl ?step st4 sa = st5"
    unfolding fold by (simp add: rs l st4_def st5_def)
  have ff: "forwardFill_st opts a m ?n st5 =
            st5\<lparr>recordObjs := recordObjs st0 @ forwardFill opts a m ?rs\<rparr>" for a m
    by (rule forwardFill_st_eq) (simp_all add: st5_def)
  have mm: "metrics (deref st5 w) = metrics (deref st0 w)"
    by (simp add: deref_def st5_def)
  have fr: "fitRecords env (deref st0 w) opts =
            forwardFill opts (mget (metrics (deref st0 w)) ''AvgHr'')
              (mget (metrics (deref st0 w)) ''MaxHr'') ?rs"
    using hs by (simp add: fitRecords_def)
  have lf: "length (fitRecords env (deref st0 w) opts) = length ?rs"
    by (simp add: fr length_forwardFill)
  have nA: "newArray [] st0 = (?n, st1)"
    by (simp add: newArray_def st1_def)
  have nF: "newArray (filter (\<lambda>p. hr (points (st1\<lparr>arrays := arrays st1 @ [sa]\<rparr>) ! p) \<noteq> None)
              (arrays (st1\<lparr>arrays := arrays st1 @ [sa]\<rparr>) ! Suc ?n))
              (st1\<lparr>arrays := arrays st1 @ [sa]\<rparr>) =
            (Suc (Suc ?n), st0\<lparr>arrays := arrays st0 @ [[], sa, filter (\<lambda>p. hr (?P ! p) \<noteq> None) sa]\<rparr>)"
    by (simp add: newArray_def st1_def nth_append)
  have sF: "sortByTSec (Suc (Suc ?n))
              (st0\<lparr>arrays := arrays st0 @ [[], sa, filter (\<lambda>p. hr (?P ! p) \<noteq> None) sa]\<rparr>) = st4"
    by (simp add: sortByTSec_def st4_def fa_def nth_append list_update_append)
  have sa4: "arrays st4 ! Suc ?n = sa" by (simp add: st4_def nth_append)
  have "fitRecords_st env w opts st0 =
     (?n, forwardFill_st opts (mget (metrics (deref st5 w)) ''AvgHr'')
            (mget (metrics (deref st5 w)) ''MaxHr'') ?n st5)"
    unfolding fitRecords_st_def nA
    by (simp only: prod.case Let_def hs if_True sc nF sF sa4 st5)
  then have "fitRecords_st env w opts st0 =
     (?n, st5\<lparr>recordObjs := recordObjs st0 @ fitRecords env (deref st0 w) opts\<rparr>)"
    by (simp only: ff mm fr [symmetric])
  then have "fitRecords_st env w opts st0 =
     (length (arrays st0),
      st0\<lparr>recordObjs := recordObjs st0 @ fitRecords env (deref st0 w) opts,
          arrays := arrays st0 @
            [[length (recordObjs st0)..<
              length (recordObjs st0) + length (fitRecords env (deref st0 w) opts)], sa, fa]\<rparr>)"
    by (simp add: st5_def lf)
  then show ?thesis by (intro exI)
qed


lemma fitRecords_st_shape:
  assumes "wellFormed st0 w"
  shows "\<exists>rest. fitRecords_st env w opts st0 =
     (length (arrays st0),
      st0\<lparr>recordObjs := recordObjs st0 @ fitRecords env (deref st0 w) opts,
          arrays := arrays st0 @
            ([length (recordObjs st0)..<
              length (recordObjs st0) + length (fitRecords env (deref st0 w) opts)] # rest)\<rparr>)"
proof (cases "hasSeries (deref st0 w)")
  case True
  from fitRecords_st_series [OF assms True, where opts = opts and env = env] show ?thesis by blast
next
  case False
  from fitRecords_st_synthetic [OF assms False, where opts = opts and env = env] show ?thesis by blast
qed

lemma fitRecords_st_correct:
  assumes "wellFormed st0 w"
  shows "recordsAt (snd (fitRecords_st env w opts st0)) (fst (fitRecords_st env w opts st0)) =
           fitRecords env (deref st0 w) opts"
    and "unchanged st0 (snd (fitRecords_st env w opts st0))"
proof -
  from fitRecords_st_shape [OF assms, where opts = opts and env = env] obtain rest where
    e: "fitRecords_st env w opts st0 =
     (length (arrays st0),
      st0\<lparr>recordObjs := recordObjs st0 @ fitRecords env (deref st0 w) opts,
          arrays := arrays st0 @
            ([length (recordObjs st0)..<
              length (recordObjs st0) + length (fitRecords env (deref st0 w) opts)] # rest)\<rparr>)"
    by blast
  show "recordsAt (snd (fitRecords_st env w opts st0)) (fst (fitRecords_st env w opts st0)) =
           fitRecords env (deref st0 w) opts"
    by (simp add: e recordsAt_def map_nth_upt_append)
  show "unchanged st0 (snd (fitRecords_st env w opts st0))"
    by (simp add: e unchanged_def)
qed

lemma workoutToFIT_st_correct:
  assumes "wellFormed st w"
  shows "fst (workoutToFIT_st env clk w opts enh st) = workoutToFIT env clk (deref st w) opts enh"
    and "unchanged st (snd (workoutToFIT_st env clk w opts enh st))"
proof -
  obtain ra st1 where f: "fitRecords_st env w opts st = (ra, st1)"
    by (cases "fitRecords_st env w opts st")
  from fitRecords_st_correct [OF assms, where opts = opts and env = env] f
  have r: "recordsAt st1 ra = fitRecords env (deref st w) opts" and u: "unchanged st st1"
    by simp_all
  have d: "deref st1 w = deref st w" using u assms by (rule deref_unchanged)
  show "fst (workoutToFIT_st env clk w opts enh st) = workoutToFIT env clk (deref st w) opts enh"
    by (simp add: workoutToFIT_st_def workoutToFIT_def f r d startMs_deref Let_def)
  show "unchanged st (snd (workoutToFIT_st env clk w opts enh st))"
    using u by (simp add: workoutToFIT_st_def f Let_def)
qed

lemma series_array_unchanged:
  assumes "unchanged st st'" "wellFormed st w" "series w = Some a"
  shows "arrays st' ! a = arrays st ! a"
proof -
  from assms(2,3) have a: "a < length (arrays st)" by (simp add: wellFormed_def)
  have "arrays st' ! a = take (length (arrays st)) (arrays st') ! a"
    using a by simp
  also have "\<dots> = arrays st ! a" using assms(1) by (simp add: unchanged_def)
  finally show ?thesis .
qed

text \<open>
  C1 (as amended). With the heart-rate option on and at least one record, the pass
  keeps the number of records and every field but the heart rate; the value it
  starts from is the heart rate of the first record that has one, and only when
  no record has one the rounded average heart rate, or else the rounded maximum;
  every record then has the most recent known heart rate at or before it, and the
  starting value where there is none before it. For the heart rates
  none, none, 150, none and the average 130 the result is 150, 150, 150, 150: the
  gap in front is filled with the first known value, not with the average.
\<close>

theorem forwardFill_most_recent:
  assumes "includeHrSeries opts" and "records \<noteq> []"
  shows "length (forwardFill opts avgHr maxHr records) = length records
    \<and> firstKnown records =
        (case List.map_filter id (map r_hr records) of [] \<Rightarrow> None | h # hs \<Rightarrow> Some h)
    \<and> fallbackHr avgHr maxHr records =
        (case firstKnown records of
           Some h \<Rightarrow> Some h
         | None \<Rightarrow> (case avgHr of
                      Some a \<Rightarrow> Some (Math_round a)
                    | None \<Rightarrow> map_option Math_round maxHr))
    \<and> (\<forall>i<length records.
          r_hr (forwardFill opts avgHr maxHr records ! i) =
            (case mostRecent (take (Suc i) (map r_hr records)) of
               Some h \<Rightarrow> Some h
             | None \<Rightarrow> fallbackHr avgHr maxHr records))
    \<and> map (\<lambda>r. r\<lparr>r_hr := None\<rparr>) (forwardFill opts avgHr maxHr records) =
        map (\<lambda>r. r\<lparr>r_hr := None\<rparr>) records"
proof (intro conjI allI impI)
  show "length (forwardFill opts avgHr maxHr records) = length records"
    by (simp add: forwardFill_def length_fillFrom split: option.splits)
  show "firstKnown records =
        (case List.map_filter id (map r_hr records) of [] \<Rightarrow> None | h # hs \<Rightarrow> Some h)"
    by (rule firstKnown_eq)
  show "fallbackHr avgHr maxHr records =
        (case firstKnown records of
           Some h \<Rightarrow> Some h
         | None \<Rightarrow> (case avgHr of
                      Some a \<Rightarrow> Some (Math_round a)
                    | None \<Rightarrow> map_option Math_round maxHr))"
    by (auto simp: fallbackHr_def orElse_def split: option.splits)
  show "map (\<lambda>r. r\<lparr>r_hr := None\<rparr>) (forwardFill opts avgHr maxHr records) =
        map (\<lambda>r. r\<lparr>r_hr := None\<rparr>) records"
    by (simp add: forwardFill_def fillFrom_other_fields split: option.splits)
next
  fix i assume i: "i < length records"
  show "r_hr (forwardFill opts avgHr maxHr records ! i) =
            (case mostRecent (take (Suc i) (map r_hr records)) of
               Some h \<Rightarrow> Some h
             | None \<Rightarrow> fallbackHr avgHr maxHr records)"
  proof (cases "fallbackHr avgHr maxHr records")
    case None
    then have fk: "firstKnown records = None"
      by (auto simp: fallbackHr_def orElse_def split: option.splits)
    have "r_hr (records ! i) = None"
      using firstKnown_None_mostRecent [OF fk, of "Suc i"] i
      by (auto simp: take_Suc_conv_app_nth mostRecent_def List.map_filter_def Let_def
               split: if_splits)
    with None firstKnown_None_mostRecent [OF fk, of "Suc i"] assms show ?thesis
      by (simp add: forwardFill_def)
  next
    case (Some f)
    with assms fillFrom_nth [OF i, of f] show ?thesis
      by (simp add: forwardFill_def split: option.splits)
  qed
qed

theorem forwardFill_most_recent_witness:
  "includeHrSeries exOpts
   \<and> [exRecord 0 None, exRecord 1 None, exRecord 2 (Some 150), exRecord 3 None] \<noteq> []
   \<and> map r_hr (forwardFill exOpts (Some 130) None
        [exRecord 0 None, exRecord 1 None, exRecord 2 (Some 150), exRecord 3 None]) =
      [Some 150, Some 150, Some 150, Some 150]"
  using forwardFill_most_recent [of exOpts
          "[exRecord 0 None, exRecord 1 None, exRecord 2 (Some 150), exRecord 3 None]"
          "Some 130" None]
  by (simp add: exOpts_def exRecord_def forwardFill_def fallbackHr_def orElse_def)

theorem forwardFill_scenario_counterexample:
  "map r_hr (forwardFill exOpts (Some 130) None
        [exRecord 0 None, exRecord 1 None, exRecord 2 (Some 150), exRecord 3 None]) \<noteq>
      [Some 130, Some 130, Some 150, Some 150]"
  by (simp add: exOpts_def exRecord_def forwardFill_def fallbackHr_def orElse_def)



section \<open>The synthetic fallback\<close>



text \<open>
  C4. In the series path of both encoders, with the distance option on and a total
  distance \<open>D\<close>, \<open>seriesTotalSec\<close> is the larger of the rounded duration and the
  offset of the last sorted point. Whenever it is positive, the distance of the
  point at the offset \<open>t\<close> (its \<open>tSec\<close>, rounded and not below zero: \<open>tSec\<close>
  itself when the offsets of the series are non-negative integers) is the product
  of doubles \<open>D * (t / seriesTotalSec)\<close>, the quotient being rounded first. The
  activity encoder writes this number in the \<open>distance\<close> field of the record of
  the point; the track encoder writes its \<open>toFixed(1)\<close> text, one digit after the
  point, in the \<open>DistanceMeters\<close> element of the trackpoint, which is in the
  \<open>Track\<close> of the document. The number is \<open>D * t / seriesTotalSec\<close> of the
  reals when no operation rounds. For 1000 m, 100 s and the offset 25 it is 250,
  and the text is \<open>250.0\<close>.
\<close>

theorem series_distance_prorated:
  assumes "hasSeries w" and "includeDistance opts" and "distanceM w = Some D"
  shows "seriesTotalSec w (sortedSeries w) = max (totalSeconds w) (tSec (last (sortedSeries w)))
    \<and> (0 < seriesTotalSec w (sortedSeries w) \<longrightarrow>
          map (numberOf ''distance'') (recordsOf (workoutToFIT env clk w opts enh)) =
            map (\<lambda>p. Some (proRated env D (max 0 (Math_round (tSec p)))
                              (seriesTotalSec w (sortedSeries w))))
              (sortedSeries w)
        \<and> length (tcxPoints env clk w opts) = length (sortedSeries w)
        \<and> (\<forall>i < length (sortedSeries w). \<exists>alt rest.
              tcxPoints env clk w opts ! i =
                nl @ sp 8 @ ''<Trackpoint>'' @ nl @
                sp 10 @ ''<Time>'' @
                  toISOString env
                    (startMs env clk w + max 0 (Math_round (tSec (sortedSeries w ! i))) * 1000) @
                  ''</Time>'' @ nl @
                sp 10 @ alt @ nl @
                sp 10 @ ''<DistanceMeters>'' @
                  toFixed1 env
                    (proRated env D (max 0 (Math_round (tSec (sortedSeries w ! i))))
                       (seriesTotalSec w (sortedSeries w))) @
                  ''</DistanceMeters>'' @ nl @ rest))
    \<and> (\<exists>pre post. workoutToTCX env clk w opts =
          pre @ sp 8 @ ''<Track>'' @ joinWith nl (tcxPoints env clk w opts) @ nl @
          sp 8 @ ''</Track>'' @ post)
    \<and> ((\<forall>x. rnd env x = x) \<longrightarrow> (\<forall>t s. proRated env D t s = D * (t / s)))
    \<and> (rnd env (1 / 4) = 1 / 4 \<and> rnd env 250 = 250 \<longrightarrow>
          proRated env 1000 25 100 = 250
        \<and> toFixed1 env (proRated env 1000 25 100) = ''250.0'')
    \<and> ((\<forall>p \<in> set (seriesOf w). \<exists>n. tSec p = real n) \<longrightarrow>
          map (\<lambda>p. max 0 (Math_round (tSec p))) (sortedSeries w) = map tSec (sortedSeries w))"
proof (intro conjI impI allI)
  let ?T = "seriesTotalSec w (sortedSeries w)"
  show "?T = max (totalSeconds w) (tSec (last (sortedSeries w)))"
    using assms(1) by (rule seriesTotalSec_eq)
  have td: "totalDistanceM w opts = Some D"
    using assms(2,3) by (simp add: totalDistanceM_def)
  show "map (numberOf ''distance'') (recordsOf (workoutToFIT env clk w opts enh)) =
          map (\<lambda>p. Some (proRated env D (max 0 (Math_round (tSec p))) ?T)) (sortedSeries w)"
    if "0 < ?T"
    using that td
    by (simp add: record_distances fit_series_dist [OF assms(1)] o_def proRated_def
          js_mul_def js_div_def)
  show "length (tcxPoints env clk w opts) = length (sortedSeries w)"
    by (simp add: tcxPoints_series [OF assms(1)])
  show "\<exists>alt rest.
          tcxPoints env clk w opts ! i =
            nl @ sp 8 @ ''<Trackpoint>'' @ nl @
            sp 10 @ ''<Time>'' @
              toISOString env
                (startMs env clk w + max 0 (Math_round (tSec (sortedSeries w ! i))) * 1000) @
              ''</Time>'' @ nl @
            sp 10 @ alt @ nl @
            sp 10 @ ''<DistanceMeters>'' @
              toFixed1 env (proRated env D (max 0 (Math_round (tSec (sortedSeries w ! i)))) ?T) @
              ''</DistanceMeters>'' @ nl @ rest"
    if "0 < ?T" and "i < length (sortedSeries w)" for i
  proof -
    let ?tp = "tcxSeriesPoint env w opts ?T (sortedSeries w ! i)"
    have p: "tcxPoints env clk w opts ! i = renderTrackpoint env (startMs env clk w) ?tp"
      using that(2) by (simp add: tcxPoints_series [OF assms(1)])
    have t: "tp_t ?tp = max 0 (Math_round (tSec (sortedSeries w ! i)))"
      by (rule tcxSeriesPoint_t)
    have d: "tp_dist ?tp = proRated env D (max 0 (Math_round (tSec (sortedSeries w ! i)))) ?T"
      using td that(1) by (rule tcxSeriesPoint_dist)
    from renderTrackpoint_distance [of env "startMs env clk w" ?tp]
    show ?thesis by (simp only: p t d)
  qed
  show "\<exists>pre post. workoutToTCX env clk w opts =
          pre @ sp 8 @ ''<Track>'' @ joinWith nl (tcxPoints env clk w opts) @ nl @
          sp 8 @ ''</Track>'' @ post"
    by (rule workoutToTCX_track)
  show "proRated env D t s = D * (t / s)" if "\<forall>x. rnd env x = x" for t s
    using that by (simp add: proRated_def)
  show "proRated env 1000 25 100 = 250" if "rnd env (1 / 4) = 1 / 4 \<and> rnd env 250 = 250"
  proof -
    from that have a: "rnd env (1 / 4) = 1 / 4" and b: "rnd env 250 = 250" by simp_all
    have "proRated env 1000 25 100 = rnd env (1000 * rnd env (1 / 4))"
      by (simp add: proRated_def)
    also have "\<dots> = rnd env 250" by (simp only: a) simp
    finally show ?thesis by (simp only: b)
  qed
  then show "toFixed1 env (proRated env 1000 25 100) = ''250.0''"
    if "rnd env (1 / 4) = 1 / 4 \<and> rnd env 250 = 250"
    using that by (simp add: toFixed1_250)
  show "map (\<lambda>p. max 0 (Math_round (tSec p))) (sortedSeries w) = map tSec (sortedSeries w)"
    if "\<forall>p \<in> set (seriesOf w). \<exists>n. tSec p = real n"
    using that by (rule integer_offsets)
qed

theorem series_distance_prorated_witness:
  "hasSeries (exWorkout (Some 100) (Some [exPoint 25 None, exPoint 0 None]))
   \<and> includeDistance exOpts
   \<and> distanceM (exWorkout (Some 100) (Some [exPoint 25 None, exPoint 0 None])) = Some 1000
   \<and> seriesTotalSec (exWorkout (Some 100) (Some [exPoint 25 None, exPoint 0 None]))
        (sortedSeries (exWorkout (Some 100) (Some [exPoint 25 None, exPoint 0 None]))) = 100
   \<and> map (numberOf ''distance'')
         (recordsOf (workoutToFIT exEnv (\<lambda>k. 0)
            (exWorkout (Some 100) (Some [exPoint 25 None, exPoint 0 None])) exOpts False))
      = [Some 0, Some 250]
   \<and> (\<exists>alt rest.
         tcxPoints exEnv (\<lambda>k. 0)
           (exWorkout (Some 100) (Some [exPoint 25 None, exPoint 0 None])) exOpts ! 1 =
           nl @ sp 8 @ ''<Trackpoint>'' @ nl @
           sp 10 @ ''<Time>'' @ toISOString exEnv 1704103225000 @ ''</Time>'' @ nl @
           sp 10 @ alt @ nl @
           sp 10 @ ''<DistanceMeters>'' @ ''250.0'' @ ''</DistanceMeters>'' @ nl @ rest)
   \<and> proRated exEnv 1000 25 100 = 250"
proof -
  let ?w = "exWorkout (Some 100) (Some [exPoint 25 None, exPoint 0 None])"
  have h: "hasSeries ?w" by (simp add: hasSeries_def exWorkout_def)
  have i: "includeDistance exOpts" by (simp add: exOpts_def)
  have d: "distanceM ?w = Some 1000" by (simp add: exWorkout_def)
  have s: "sortedSeries ?w = [exPoint 0 None, exPoint 25 None]"
    by (simp add: sortedSeries_def sortSeries_def seriesOf_def exWorkout_def exPoint_def)
  have t: "totalSeconds ?w = 100"
    by (simp add: totalSeconds_def exWorkout_def Math_round_numeral)
  have r: "rnd exEnv x = x" for x by (simp add: exEnv_def)
  have sm: "startMs exEnv (\<lambda>k. 0) ?w = 1704103200000"
    by (simp add: startMs_def startISO_def truthyString_def exWorkout_def exEnv_def)
  have o: "max 0 (Math_round (tSec (exPoint 25 None))) = 25"
    "max 0 (Math_round (tSec (exPoint 0 None))) = 0"
    by (simp_all add: exPoint_def Math_round_numeral Math_round_0)
  have p: "proRated exEnv 1000 25 100 = 250" "proRated exEnv 1000 0 100 = 0"
    by (simp_all add: proRated_def r)
  note T = series_distance_prorated [OF h i d, of exEnv "\<lambda>k. 0" False]
  have tot: "seriesTotalSec ?w (sortedSeries ?w) = 100"
    using T [THEN conjunct1] unfolding s t by (simp add: exPoint_def)
  note U = T [THEN conjunct2, THEN conjunct1, unfolded tot, simplified, unfolded s]
  have f: "map (numberOf ''distance'') (recordsOf (workoutToFIT exEnv (\<lambda>k. 0) ?w exOpts False))
      = [Some 0, Some 250]"
    using U [THEN conjunct1] by (simp add: o p)
  have x: "\<exists>alt rest.
         tcxPoints exEnv (\<lambda>k. 0) ?w exOpts ! 1 =
           nl @ sp 8 @ ''<Trackpoint>'' @ nl @
           sp 10 @ ''<Time>'' @ toISOString exEnv 1704103225000 @ ''</Time>'' @ nl @
           sp 10 @ alt @ nl @
           sp 10 @ ''<DistanceMeters>'' @ ''250.0'' @ ''</DistanceMeters>'' @ nl @ rest"
    using U [THEN conjunct2, THEN conjunct2, rule_format, of 1]
    by (simp add: o p sm toFixed1_250)
  from h i d tot f x p(1) show ?thesis by (simp only: simp_thms)
qed

text \<open>
  The text of a trackpoint has the distance to one digit after the point: for
  1000 m, 3 s and the offset 1 it is \<open>333.3\<close>, the text of another number than
  \<open>1000 * (1 / 3)\<close>.
\<close>

theorem series_distance_text_counterexample:
  "hasSeries (exWorkout (Some 3) (Some [exPoint 1 None]))
   \<and> includeDistance exOpts
   \<and> distanceM (exWorkout (Some 3) (Some [exPoint 1 None])) = Some 1000
   \<and> seriesTotalSec (exWorkout (Some 3) (Some [exPoint 1 None]))
        (sortedSeries (exWorkout (Some 3) (Some [exPoint 1 None]))) = 3
   \<and> tcxPoints exEnv (\<lambda>k. 0) (exWorkout (Some 3) (Some [exPoint 1 None])) exOpts =
       [nl @ sp 8 @ ''<Trackpoint>'' @ nl @
        sp 10 @ ''<Time></Time>'' @ nl @
        sp 10 @ nl @
        sp 10 @ ''<DistanceMeters>333.3</DistanceMeters>'' @ nl @
        sp 10 @ nl @
        sp 10 @ nl @
        sp 10 @ nl @
        sp 8 @ ''</Trackpoint>'']
   \<and> toFixed1 exEnv (3333 / 10) = ''333.3''
   \<and> (1000::real) * (1 / 3) \<noteq> 3333 / 10"
proof -
  let ?w = "exWorkout (Some 3) (Some [exPoint 1 None])"
  have h: "hasSeries ?w" by (simp add: hasSeries_def exWorkout_def)
  have i: "includeDistance exOpts" by (simp add: exOpts_def)
  have d: "distanceM ?w = Some 1000" by (simp add: exWorkout_def)
  have s: "sortedSeries ?w = [exPoint 1 None]"
    by (simp add: sortedSeries_def sortSeries_def seriesOf_def exWorkout_def exPoint_def)
  have t: "totalSeconds ?w = 3"
    by (simp add: totalSeconds_def exWorkout_def Math_round_numeral)
  have e: "tSec (exPoint 1 None) = 1" by (simp add: exPoint_def)
  have tot: "seriesTotalSec ?w (sortedSeries ?w) = 3"
    unfolding s by (simp add: seriesTotalSec_def t e)
  have r: "rnd exEnv x = x" for x by (simp add: exEnv_def)
  have iso: "toISOString exEnv x = []" for x by (simp add: exEnv_def)
  have m1: "Math_round 1 = 1" using Math_round_of_int [of 1] by simp
  have tp: "tcxSeriesPoint exEnv ?w exOpts 3 (exPoint 1 None) =
      \<lparr> tp_t = 1, tp_alt = None, tp_dist = 1000 * (1 / 3), tp_hr = None,
        tp_cadence = None, tp_watts = None \<rparr>"
    by (simp add: tcxSeriesPoint_def Let_def exPoint_def exOpts_def totalDistanceM_def
          exWorkout_def js_mul_def js_div_def r m1)
  have "tcxPoints exEnv (\<lambda>k. 0) ?w exOpts =
       [nl @ sp 8 @ ''<Trackpoint>'' @ nl @
        sp 10 @ ''<Time></Time>'' @ nl @
        sp 10 @ nl @
        sp 10 @ ''<DistanceMeters>333.3</DistanceMeters>'' @ nl @
        sp 10 @ nl @
        sp 10 @ nl @
        sp 10 @ nl @
        sp 8 @ ''</Trackpoint>'']"
    unfolding tcxPoints_series [OF h] s tot [unfolded s]
    using toFixed1_third [of exEnv] by (simp add: tp renderTrackpoint_def iso)
  with h i d tot show ?thesis by (simp add: toFixed1_3333)
qed



text \<open>
  C5. The activity encoder hands its messages to the writer in this order: the
  file identification; with enhanced compatibility the file creator, a device
  information and the timer start event; one record for each sample point (each
  point of the series, or each synthetic point); the lap, the session and the
  activity; and with enhanced compatibility the timer stop event and a device
  information. The \<open>timestamp\<close> field of the record for the sample point at
  offset \<open>t\<close> is the writer's time of the instant \<open>start + t * 1000\<close>; these
  instants are in non-decreasing order (two points at one rounded offset have the
  same), and so are the timestamps of the records when the writer's time
  conversion is monotone.
\<close>

theorem fit_message_order:
  "map msg_kind (workoutToFIT env clk w opts enh) =
     [''file_id''] @ (if enh then [''file_creator'', ''device_info'', ''event''] else [])
     @ replicate (length (sampleOffsets w)) ''record''
     @ [''lap'', ''session'', ''activity'']
     @ (if enh then [''event'', ''device_info''] else [])
   \<and> length (sampleOffsets w) =
       (if hasSeries w then length (seriesOf w) else length (syntheticIndices (totalSeconds w)))
   \<and> map (numberOf ''timestamp'') (recordsOf (workoutToFIT env clk w opts enh)) =
       map (\<lambda>t. Some (fitTime env (startMs env clk w + t * 1000))) (sampleOffsets w)
   \<and> sorted (sampleOffsets w)
   \<and> sorted (map (\<lambda>t. startMs env clk w + t * 1000) (sampleOffsets w))
   \<and> ((\<forall>x y. x \<le> y \<longrightarrow> fitTime env x \<le> fitTime env y) \<longrightarrow>
        sorted (map (\<lambda>m. the (numberOf ''timestamp'' m))
                  (recordsOf (workoutToFIT env clk w opts enh))))
   \<and> (enh \<longrightarrow>
        map_of (msg_fields (workoutToFIT env clk w opts enh ! 3)) ''event_type'' = Some (fstr ''start'')
      \<and> map_of (msg_fields (workoutToFIT env clk w opts enh ! (length (sampleOffsets w) + 7)))
           ''event_type'' = Some (fstr ''stop_all''))"
proof (intro conjI impI)
  have len: "length (fitRecords env w opts) = length (sampleOffsets w)"
    using arg_cong [OF fit_offsets, of length] by simp
  show "map msg_kind (workoutToFIT env clk w opts enh) =
     [''file_id''] @ (if enh then [''file_creator'', ''device_info'', ''event''] else [])
     @ replicate (length (sampleOffsets w)) ''record''
     @ [''lap'', ''session'', ''activity'']
     @ (if enh then [''event'', ''device_info''] else [])"
    by (simp add: workoutToFIT_eq kinds_writeHeader kinds_writeSummary o_def recordMessage_def
          map_replicate_const len)
  show "length (sampleOffsets w) =
       (if hasSeries w then length (seriesOf w) else length (syntheticIndices (totalSeconds w)))"
    by (rule length_sampleOffsets)
  show ts: "map (numberOf ''timestamp'') (recordsOf (workoutToFIT env clk w opts enh)) =
       map (\<lambda>t. Some (fitTime env (startMs env clk w + t * 1000))) (sampleOffsets w)"
    by (rule record_timestamps)
  show "sorted (sampleOffsets w)"
    by (rule sorted_sampleOffsets)
  have "sorted (map (\<lambda>t. t) (sampleOffsets w))"
    by (simp add: sorted_sampleOffsets)
  then show "sorted (map (\<lambda>t. startMs env clk w + t * 1000) (sampleOffsets w))"
    by (rule sorted_map_mono [where f = "\<lambda>t. startMs env clk w + t * 1000"]) simp
  have "sorted (map (\<lambda>t. t) (sampleOffsets w))"
    by (simp add: sorted_sampleOffsets)
  then have "sorted (map (\<lambda>t. fitTime env (startMs env clk w + t * 1000)) (sampleOffsets w))"
    if "\<forall>x y. x \<le> y \<longrightarrow> fitTime env x \<le> fitTime env y"
    by (rule sorted_map_mono [where f = "\<lambda>t. fitTime env (startMs env clk w + t * 1000)"])
       (simp add: that)
  moreover have "map (\<lambda>m. the (numberOf ''timestamp'' m)) (recordsOf (workoutToFIT env clk w opts enh))
      = map (\<lambda>t. fitTime env (startMs env clk w + t * 1000)) (sampleOffsets w)"
    using arg_cong [OF ts, of "map the"] by (simp add: o_def)
  ultimately show "sorted (map (\<lambda>m. the (numberOf ''timestamp'' m))
                  (recordsOf (workoutToFIT env clk w opts enh)))"
    if "\<forall>x y. x \<le> y \<longrightarrow> fitTime env x \<le> fitTime env y"
    using that by simp
  show "map_of (msg_fields (workoutToFIT env clk w opts enh ! 3)) ''event_type'' = Some (fstr ''start'')"
    if enh
    using that by (simp add: workoutToFIT_eq writeHeader_def writeMessage_def Let_def)
  have hlen: "length (writeHeader s True []) = 4" for s
    by (simp add: writeHeader_def writeMessage_def Let_def)
  show "map_of (msg_fields (workoutToFIT env clk w opts enh ! (length (sampleOffsets w) + 7)))
           ''event_type'' = Some (fstr ''stop_all'')"
    if enh
    using that
    by (simp add: workoutToFIT_eq nth_append hlen len)
       (simp add: writeSummary_def writeMessage_def Let_def)
qed

theorem fit_message_order_witness:
  "map msg_kind (workoutToFIT exEnv (\<lambda>k. 0) (exWorkout (Some 10) None) exOpts True) =
     [''file_id'', ''file_creator'', ''device_info'', ''event'', ''record'', ''record'', ''record'',
      ''lap'', ''session'', ''activity'', ''event'', ''device_info'']
   \<and> map (numberOf ''timestamp'')
         (recordsOf (workoutToFIT exEnv (\<lambda>k. 0) (exWorkout (Some 10) None) exOpts True)) =
       [Some 1073037600, Some 1073037605, Some 1073037610]
   \<and> map (numberOf ''timestamp'')
         (recordsOf (workoutToFIT exEnv (\<lambda>k. 0) (exWorkout (Some 0) None) exOpts True)) =
       [Some 1073037600, Some 1073037600]
   \<and> sorted (map (\<lambda>m. the (numberOf ''timestamp'' m))
               (recordsOf (workoutToFIT exEnv (\<lambda>k. 0) (exWorkout (Some 10) None) exOpts True)))"
proof -
  have m: "\<forall>x y. x \<le> y \<longrightarrow> fitTime exEnv x \<le> fitTime exEnv y"
    by (simp add: exEnv_def divide_right_mono)
  have h: "\<not> hasSeries (exWorkout d None)" for d
    by (simp add: hasSeries_def exWorkout_def)
  have t: "totalSeconds (exWorkout (Some 10) None) = 10" "totalSeconds (exWorkout (Some 0) None) = 0"
    by (simp_all add: totalSeconds_def exWorkout_def Math_round_numeral Math_round_0)
  have "\<lfloor>(10::real) / 5\<rfloor> = 2" by simp
  then have i: "syntheticIndices 10 = [0, 1, 2]" "syntheticIndices 0 = [0, 1]"
    by (simp_all add: syntheticIndices_def syntheticCount_def Math_floor_def upt_rec)
  have o: "sampleOffsets (exWorkout (Some 10) None) = [0, 5, 10]"
    "sampleOffsets (exWorkout (Some 0) None) = [0, 0]"
    by (simp_all add: sampleOffsets_def h t i)
  have s: "startMs exEnv (\<lambda>k. 0) (exWorkout d None) = 1704103200000" for d
    by (simp add: startMs_def startISO_def truthyString_def exWorkout_def exEnv_def)
  have f: "fitTime exEnv x = x / 1000 - 631065600" for x
    by (simp add: exEnv_def)
  from fit_message_order [of exEnv "\<lambda>k. 0" "exWorkout (Some 10) None" exOpts True]
       fit_message_order [of exEnv "\<lambda>k. 0" "exWorkout (Some 0) None" exOpts True] m
  show ?thesis
    by (simp add: o s f numeral_3_eq_3)
qed
text \<open>
  C9. When the workout has a non-empty \<open>startedAtISO\<close> that parses as a date,
  the document of the track encoder and the messages of the activity encoder do
  not depend on the wall clock: two runs on the same workout and options (and the
  same flag), whatever the clock shows at each, give the same output.
\<close>

theorem encoders_ignore_clock:
  assumes "startedAtISO w = Some s" and "s \<noteq> []" and "parseDate env s = Some t"
  shows "workoutToTCX env clk w opts = workoutToTCX env clk' w opts
    \<and> workoutToFIT env clk w opts enh = workoutToFIT env clk' w opts enh"
proof
  have i: "startISO env c w = s" for c
    using assms(1,2) by (rule startISO_valid)
  have m: "startMs env c w = t" for c
    using assms by (rule startMs_valid)
  show "workoutToTCX env clk w opts = workoutToTCX env clk' w opts"
    by (simp add: workoutToTCX_def tcxDocument_def tcxPoints_def i m assms(3))
  show "workoutToFIT env clk w opts enh = workoutToFIT env clk' w opts enh"
    by (simp add: workoutToFIT_def m)
qed

theorem encoders_ignore_clock_witness:
  "startedAtISO (exWorkout (Some 23) None) = Some ''2024-01-01T10:00:00.000Z''
   \<and> ''2024-01-01T10:00:00.000Z'' \<noteq> []
   \<and> parseDate exEnv ''2024-01-01T10:00:00.000Z'' = Some 1704103200000
   \<and> workoutToTCX exEnv (\<lambda>k. 0) (exWorkout (Some 23) None) exOpts =
       workoutToTCX exEnv (\<lambda>k. real k + 1) (exWorkout (Some 23) None) exOpts
   \<and> workoutToFIT exEnv (\<lambda>k. 0) (exWorkout (Some 23) None) exOpts True =
       workoutToFIT exEnv (\<lambda>k. real k + 1) (exWorkout (Some 23) None) exOpts True"
proof -
  have a: "startedAtISO (exWorkout (Some 23) None) = Some ''2024-01-01T10:00:00.000Z''"
    by (simp add: exWorkout_def)
  have b: "''2024-01-01T10:00:00.000Z'' \<noteq> []" by simp
  have c: "parseDate exEnv ''2024-01-01T10:00:00.000Z'' = Some 1704103200000"
    by (simp add: exEnv_def)
  from encoders_ignore_clock [OF a b c, of "\<lambda>k. 0" exOpts "\<lambda>k. real k + 1" True] a b c
  show ?thesis by simp
qed

text \<open>
  C7. The indoor normalizer raises on an array whose record has an object with a
  property \<open>toString\<close> as its \<open>id\<close>: \<open>String(rawRec?.id ?? ...)\<close> throws a
  \<open>TypeError\<close>, and no workout is returned for any record of the array.
\<close>

theorem indoor_normalizer_raises:
  "extractWorkoutsFromIndoorJSON env (JArr [JObj [(''id'', JObj [(''toString'', JNum 1)])]]) =
     Inl TypeError"
  by (simp add: extractWorkoutsFromIndoorJSON_def indoorWorkout_def Let_def asRecord_def
        getProp_def nullish_def js_String_def bindE_def)

text \<open>
  C10. Neither encoder changes its input. For a workout whose addresses are
  addresses of the store, after \<open>workoutToTCX\<close> or \<open>workoutToFIT\<close> every array
  and object that was in the store is as it was: the series array has its elements
  in their order, the points and the metrics object have their values, and the
  workout reads as before. The sort works on a copy of the array, and the
  forward-fill pass writes to the record objects that the encoder has made. What
  the encoders return is what they compute from the values of the workout.
\<close>

theorem encoders_leave_input_unchanged:
  assumes "wellFormed st w"
  shows "unchanged st (snd (workoutToTCX_st env clk w opts st))
    \<and> unchanged st (snd (workoutToFIT_st env clk w opts enh st))
    \<and> deref (snd (workoutToTCX_st env clk w opts st)) w = deref st w
    \<and> deref (snd (workoutToFIT_st env clk w opts enh st)) w = deref st w
    \<and> (\<forall>a. series w = Some a \<longrightarrow>
           arrays (snd (workoutToTCX_st env clk w opts st)) ! a = arrays st ! a
         \<and> arrays (snd (workoutToFIT_st env clk w opts enh st)) ! a = arrays st ! a)
    \<and> fst (workoutToTCX_st env clk w opts st) = workoutToTCX env clk (deref st w) opts
    \<and> fst (workoutToFIT_st env clk w opts enh st) = workoutToFIT env clk (deref st w) opts enh"
proof -
  note t = workoutToTCX_st_correct [OF assms, of env clk opts]
  note f = workoutToFIT_st_correct [OF assms, of env clk opts enh]
  show ?thesis
    using t f deref_unchanged [OF t(2) assms] deref_unchanged [OF f(2) assms]
      series_array_unchanged [OF t(2) assms] series_array_unchanged [OF f(2) assms]
    by simp
qed

theorem encoders_leave_input_unchanged_witness:
  "wellFormed exStore exWorkoutRef
   \<and> series (deref exStore exWorkoutRef) = Some [exPoint 25 (Some 150), exPoint 0 None]
   \<and> series (deref (snd (workoutToFIT_st exEnv (\<lambda>k. 0) exWorkoutRef exOpts True exStore))
         exWorkoutRef) = Some [exPoint 25 (Some 150), exPoint 0 None]
   \<and> series (deref (snd (workoutToTCX_st exEnv (\<lambda>k. 0) exWorkoutRef exOpts exStore))
         exWorkoutRef) = Some [exPoint 25 (Some 150), exPoint 0 None]
   \<and> unchanged exStore (snd (workoutToFIT_st exEnv (\<lambda>k. 0) exWorkoutRef exOpts True exStore))
   \<and> unchanged exStore (snd (workoutToTCX_st exEnv (\<lambda>k. 0) exWorkoutRef exOpts exStore))"
proof -
  have wf: "wellFormed exStore exWorkoutRef"
    by (simp add: wellFormed_def exStore_def exWorkoutRef_def)
  have d: "series (deref exStore exWorkoutRef) = Some [exPoint 25 (Some 150), exPoint 0 None]"
    by (simp add: deref_def pointsAt_def exStore_def exWorkoutRef_def)
  from encoders_leave_input_unchanged [OF wf, of exEnv "\<lambda>k. 0" exOpts True] wf d
  show ?thesis by simp
qed

section \<open>Derived scalars\<close>

text \<open>
  C6. Distance is the first present of HDistance, Distance, DistanceMeters and
  Km times 1000 (the product of doubles); vertical is the first present of Elevation and Floors; cadence is
  the first present of AvgSpm and Cadence; each of them is undefined exactly when
  every key of its chain is absent.
\<close>

theorem pick_fallback_chains:
  "pickDistanceM env m =
     firstPresent m [(''HDistance'', \<lambda>v. v), (''Distance'', \<lambda>v. v),
                     (''DistanceMeters'', \<lambda>v. v), (''Km'', \<lambda>v. js_mul env v 1000)]
   \<and> pickVerticalM m = firstPresent m [(''Elevation'', \<lambda>v. v), (''Floors'', \<lambda>v. v)]
   \<and> pickCadenceSpm m = firstPresent m [(''AvgSpm'', \<lambda>v. v), (''Cadence'', \<lambda>v. v)]
   \<and> ((pickDistanceM env m = None) =
        (mget m ''HDistance'' = None \<and> mget m ''Distance'' = None
         \<and> mget m ''DistanceMeters'' = None \<and> mget m ''Km'' = None))
   \<and> ((pickVerticalM m = None) =
        (mget m ''Elevation'' = None \<and> mget m ''Floors'' = None))
   \<and> ((pickCadenceSpm m = None) =
        (mget m ''AvgSpm'' = None \<and> mget m ''Cadence'' = None))"
  by (auto simp: pickDistanceM_def pickVerticalM_def pickCadenceSpm_def orElse_def
           split: option.splits)

theorem pick_fallback_chains_witness:
  "pickDistanceM exEnv [(''Km'', 2), (''Distance'', 1500)] = Some 1500
   \<and> pickDistanceM exEnv [(''Km'', 2)] = Some 2000
   \<and> pickVerticalM [(''Floors'', 12)] = Some 12
   \<and> pickCadenceSpm [(''Move'', 3)] = None"
  using pick_fallback_chains [of exEnv "[(''Km'', 2), (''Distance'', 1500)]"]
        pick_fallback_chains [of exEnv "[(''Km'', 2)]"]
        pick_fallback_chains [of exEnv "[(''Floors'', 12)]"]
        pick_fallback_chains [of exEnv "[(''Move'', 3)]"]
  by (simp add: mget_def js_mul_def exEnv_def)
end
